theory Spec2Isabelle
  imports Main "HOL-Library.Sublist"
begin

section \<open>EX-Installer: the EX-Turntable configuration screen and the view switcher\<close>

text \<open>
  A shallow embedding of \<^verbatim>\<open>ex_installer/ex_turntable.py\<close> (class \<^verbatim>\<open>EXTurntable\<close>:
  \<^verbatim>\<open>set_product_version\<close>, \<^verbatim>\<open>set_mode\<close>, \<^verbatim>\<open>set_forward_only\<close>, \<^verbatim>\<open>set_reverse_only\<close>,
  \<^verbatim>\<open>generate_config\<close>) and of \<^verbatim>\<open>ex_installer/ex_installer.py\<close> (class \<^verbatim>\<open>EXInstaller\<close>:
  \<^verbatim>\<open>switch_view\<close>, \<^verbatim>\<open>exception_handler\<close>).

  Python strings are modelled as \<^typ>\<open>string\<close>; a character outside ASCII stands as its
  UTF-8 bytes. Python exceptions are values of the type \<open>exc\<close>.
\<close>

subsection \<open>Python values\<close>

datatype exc = ValueError | TypeError | KeyError string | AttributeError | UnboundLocalError

definition nl :: char where
  "nl = CHR 0x0A"

text \<open>The superscript two (U+00B2) in the messages about the bus address, as UTF-8.\<close>

definition sup2 :: string where
  "sup2 = [CHR 0xC2, CHR 0xB2]"

text \<open>\<^verbatim>\<open>sep.join(xs)\<close>.\<close>

fun join :: "string \<Rightarrow> string list \<Rightarrow> string" where
  "join sep [] = []"
| "join sep [x] = x"
| "join sep (x # y # ys) = x @ sep @ join sep (y # ys)"

text \<open>
  \<^verbatim>\<open>int(s)\<close> for a string \<open>s\<close>, base ten: white space around the number is dropped, one
  sign may lead, and single underscores may stand between digits. \<open>None\<close> is the
  \<^verbatim>\<open>ValueError\<close>. Digits and white space beyond ASCII, and the interpreter's limit on the
  number of digits, are not modelled.
\<close>

definition is_space :: "char \<Rightarrow> bool" where
  "is_space c = (c \<in> set [CHR 0x20, CHR 0x09, CHR 0x0A, CHR 0x0B, CHR 0x0C, CHR 0x0D,
                           CHR 0x1C, CHR 0x1D, CHR 0x1E, CHR 0x1F])"

definition is_digit :: "char \<Rightarrow> bool" where
  "is_digit c = (48 \<le> (of_char c :: nat) \<and> (of_char c :: nat) \<le> 57)"

definition digit_val :: "char \<Rightarrow> int" where
  "digit_val c = int (of_char c) - 48"

definition strip :: "string \<Rightarrow> string" where
  "strip s = rev (dropWhile is_space (rev (dropWhile is_space s)))"

fun py_digits :: "int \<Rightarrow> string \<Rightarrow> int option" where
  "py_digits acc [] = Some acc"
| "py_digits acc [c] = (if is_digit c then Some (acc * 10 + digit_val c) else None)"
| "py_digits acc (c # d # ds) =
     (if is_digit c then py_digits (acc * 10 + digit_val c) (d # ds)
      else if c = CHR ''_'' \<and> is_digit d then py_digits (acc * 10 + digit_val d) ds
      else None)"

definition py_nat :: "string \<Rightarrow> int option" where
  "py_nat s = (case s of [] \<Rightarrow> None
               | c # cs \<Rightarrow> if is_digit c then py_digits (digit_val c) cs else None)"

definition py_int :: "string \<Rightarrow> int option" where
  "py_int s =
     (case strip s of
        [] \<Rightarrow> None
      | c # cs \<Rightarrow>
          if c = CHR ''-'' then map_option uminus (py_nat cs)
          else if c = CHR ''+'' then py_nat cs
          else py_nat (c # cs))"

text \<open>\<^verbatim>\<open>f"{v}"\<close> for a value that is a string or \<^verbatim>\<open>None\<close>.\<close>

definition fmt :: "string option \<Rightarrow> string" where
  "fmt v = (case v of None \<Rightarrow> ''None'' | Some t \<Rightarrow> t)"

subsection \<open>Widgets\<close>

text \<open>
  A widget's \<^verbatim>\<open>state\<close> option is \<^verbatim>\<open>"normal"\<close> or \<^verbatim>\<open>"disabled"\<close>. A switch
  (\<^verbatim>\<open>CTkSwitch\<close>) is checked or not; \<^verbatim>\<open>get()\<close> returns its \<^verbatim>\<open>onvalue\<close> or its
  \<^verbatim>\<open>offvalue\<close>. The toolkit's \<^verbatim>\<open>select\<close>, \<^verbatim>\<open>deselect\<close> and \<^verbatim>\<open>toggle\<close> leave a disabled
  switch as it is.
\<close>

datatype wstate = Normal | Disabled

record switch =
  checked :: bool
  wstate :: wstate

definition select :: "switch \<Rightarrow> switch" where
  "select w = (if wstate w \<noteq> Disabled then w\<lparr>checked := True\<rparr> else w)"

definition deselect :: "switch \<Rightarrow> switch" where
  "deselect w = (if wstate w \<noteq> Disabled then w\<lparr>checked := False\<rparr> else w)"

definition configure_state :: "wstate \<Rightarrow> switch \<Rightarrow> switch" where
  "configure_state st w = w\<lparr>wstate := st\<rparr>"

text \<open>The switches and the text variables (\<^verbatim>\<open>StringVar\<close>) of the screen, by attribute name.\<close>

datatype switch_id =
    mode_switch | sensor_test_switch | home_switch | limit_switch | relay_switch
  | auto_switch | disable_idle_switch | invert_dir_switch | invert_step_switch
  | invert_enable_switch | forward_only_switch | reverse_only_switch
  | led_fast_switch | led_slow_switch | debug_switch | sanity_steps_switch
  | home_sensitivity_switch | full_step_count_switch | debounce_delay_switch
  | advanced_config_enabled

datatype var_id =
    i2c_address | phase_angle | gearing | speed | accel | led_fast | led_slow
  | sanity_steps | home_sensitivity | full_step_count | debounce_delay

fun onvalue :: "switch_id \<Rightarrow> string" where
  "onvalue mode_switch = ''TRAVERSER''"
| "onvalue auto_switch = ''AUTO''"
| "onvalue relay_switch = ''HIGH''"
| "onvalue home_switch = ''HIGH''"
| "onvalue limit_switch = ''HIGH''"
| "onvalue _ = ''on''"

fun offvalue :: "switch_id \<Rightarrow> string" where
  "offvalue mode_switch = ''TURNTABLE''"
| "offvalue auto_switch = ''MANUAL''"
| "offvalue relay_switch = ''LOW''"
| "offvalue home_switch = ''LOW''"
| "offvalue limit_switch = ''LOW''"
| "offvalue _ = ''off''"

subsection \<open>The EX-Turntable view\<close>

text \<open>
  The attributes of an \<^verbatim>\<open>EXTurntable\<close> instance that the modelled methods read or write.
  \<open>product_major_version\<close>, \<open>product_minor_version\<close> and \<open>product_patch_version\<close> come from
  the base class \<^verbatim>\<open>WindowLayout\<close>; as \<^verbatim>\<open>switch_view\<close> documents, they default to
  \<^verbatim>\<open>None\<close>.
\<close>

record turntable =
  vars :: "var_id \<Rightarrow> string"
  switches :: "switch_id \<Rightarrow> switch"
  gearing_entry :: wstate
  stepper_combo :: string
  stepper_list :: "string list"
  app_version :: string
  product_name :: string
  ex_turntable_dir :: string
  product_version_name :: "string option"
  product_major_version :: "int option"
  product_minor_version :: "int option"
  product_patch_version :: "int option"

definition sw_get :: "turntable \<Rightarrow> switch_id \<Rightarrow> string" where
  "sw_get s w = (if checked (switches s w) then onvalue w else offvalue w)"

definition cget_state :: "turntable \<Rightarrow> switch_id \<Rightarrow> wstate" where
  "cget_state s w = wstate (switches s w)"

definition upd_switch :: "switch_id \<Rightarrow> (switch \<Rightarrow> switch) \<Rightarrow> turntable \<Rightarrow> turntable" where
  "upd_switch w f s = s\<lparr>switches := (switches s)(w := f (switches s w))\<rparr>"

definition set_var :: "var_id \<Rightarrow> string \<Rightarrow> turntable \<Rightarrow> turntable" where
  "set_var v t s = s\<lparr>vars := (vars s)(v := t)\<rparr>"

text \<open>
  \<^verbatim>\<open>get_steppers\<close>: \<open>def_list\<close> is what the file manager read from
  \<^verbatim>\<open>standard_steppers.h\<close>. The combo box gets the list as its values; its text stays.
\<close>

definition get_steppers :: "string list \<Rightarrow> turntable \<Rightarrow> turntable" where
  "get_steppers def_list s = s\<lparr>stepper_list := (if def_list \<noteq> [] then [] @ def_list else [])\<rparr>"

text \<open>
  \<^verbatim>\<open>a == 0 and b < n\<close> on values that may be \<^verbatim>\<open>None\<close>: \<^verbatim>\<open>None == 0\<close> is false and the
  conjunction stops there; \<^verbatim>\<open>None < n\<close> raises \<^verbatim>\<open>TypeError\<close>.
\<close>

definition pre_minor :: "int option \<Rightarrow> int option \<Rightarrow> int \<Rightarrow> exc + bool" where
  "pre_minor major minor n =
     (if major = Some 0
      then (case minor of None \<Rightarrow> Inl TypeError | Some m \<Rightarrow> Inr (m < n))
      else Inr False)"

definition set_product_version ::
  "string list \<Rightarrow> turntable \<Rightarrow> string option \<Rightarrow> int option \<Rightarrow> int option \<Rightarrow> int option
     \<Rightarrow> exc + turntable" where
  "set_product_version def_list s0 version major minor patch =
     (let s1 = get_steppers def_list (s0\<lparr>product_version_name := version\<rparr>);
          s2 = (if major \<noteq> None
                then (let a = s1\<lparr>product_major_version := major\<rparr> in
                      if minor \<noteq> None
                      then (let b = a\<lparr>product_minor_version := minor\<rparr> in
                            if patch \<noteq> None then b\<lparr>product_patch_version := patch\<rparr> else b)
                      else a)
                else s1)
      in case pre_minor (product_major_version s2) (product_minor_version s2) 6 of
           Inl e \<Rightarrow> Inl e
         | Inr pre6 \<Rightarrow>
            (let s3 = (if pre6
                       then set_var gearing ''1'' (s2\<lparr>gearing_entry := Disabled\<rparr>)
                       else s2\<lparr>gearing_entry := Normal\<rparr>)
             in case pre_minor (product_major_version s3) (product_minor_version s3) 7 of
                  Inl e \<Rightarrow> Inl e
                | Inr pre7 \<Rightarrow>
                    Inr (if pre7
                         then fold (\<lambda>w. upd_switch w (configure_state Disabled \<circ> deselect))
                                [invert_dir_switch, invert_step_switch, invert_enable_switch,
                                 forward_only_switch, reverse_only_switch] s3
                         else fold (\<lambda>w. upd_switch w (configure_state Normal))
                                [invert_dir_switch, invert_step_switch, invert_enable_switch,
                                 forward_only_switch, reverse_only_switch] s3)))"

text \<open>\<^verbatim>\<open>set_mode\<close>, \<^verbatim>\<open>set_forward_only\<close>, \<^verbatim>\<open>set_reverse_only\<close>: fonts and colours left out.\<close>

definition set_mode :: "turntable \<Rightarrow> turntable" where
  "set_mode s =
     (if sw_get s mode_switch = ''TURNTABLE''
      then upd_switch reverse_only_switch (configure_state Normal)
             (upd_switch forward_only_switch (configure_state Normal)
               (upd_switch limit_switch (configure_state Disabled) s))
      else upd_switch reverse_only_switch (configure_state Disabled \<circ> deselect)
             (upd_switch forward_only_switch (configure_state Disabled \<circ> deselect)
               (upd_switch limit_switch (configure_state Normal) s)))"

definition set_forward_only :: "turntable \<Rightarrow> turntable" where
  "set_forward_only s =
     (if sw_get s reverse_only_switch = ''on'' then upd_switch reverse_only_switch deselect s
      else s)"

definition set_reverse_only :: "turntable \<Rightarrow> turntable" where
  "set_reverse_only s =
     (if sw_get s forward_only_switch = ''on'' then upd_switch forward_only_switch deselect s
      else s)"

text \<open>
  A click on a switch: the toolkit's \<^verbatim>\<open>toggle\<close> flips an enabled switch and then runs the
  switch's \<^verbatim>\<open>command\<close>; a disabled switch ignores the click.
\<close>

definition command :: "switch_id \<Rightarrow> turntable \<Rightarrow> turntable" where
  "command w s =
     (if w = mode_switch then set_mode s
      else if w = forward_only_switch then set_forward_only s
      else if w = reverse_only_switch then set_reverse_only s
      else s)"

definition toggle :: "switch_id \<Rightarrow> turntable \<Rightarrow> turntable" where
  "toggle w s =
     (if cget_state s w \<noteq> Disabled
      then command w (upd_switch w (\<lambda>x. x\<lparr>checked := \<not> checked x\<rparr>) s)
      else s)"

text \<open>
  The screen as \<^verbatim>\<open>setup_config_frame\<close> leaves it: the variables' first values, the
  switches that are selected at creation, and \<^verbatim>\<open>set_mode\<close> run once at the end.
\<close>

fun initial_var :: "var_id \<Rightarrow> string" where
  "initial_var i2c_address = ''60''"
| "initial_var phase_angle = ''45''"
| "initial_var gearing = ''1''"
| "initial_var speed = ''200''"
| "initial_var accel = ''25''"
| "initial_var led_fast = ''100''"
| "initial_var led_slow = ''500''"
| "initial_var sanity_steps = ''10000''"
| "initial_var home_sensitivity = ''300''"
| "initial_var full_step_count = ''4096''"
| "initial_var debounce_delay = ''10''"

definition new_switch :: switch where
  "new_switch = \<lparr>checked = False, wstate = Normal\<rparr>"

definition initial_switch :: "switch_id \<Rightarrow> switch" where
  "initial_switch w =
     (if w = auto_switch \<or> w = relay_switch \<or> w = disable_idle_switch
      then select new_switch else new_switch)"

definition setup_config_frame :: "string \<Rightarrow> string \<Rightarrow> string \<Rightarrow> turntable" where
  "setup_config_frame ver pname dir =
     set_mode \<lparr>vars = initial_var, switches = initial_switch, gearing_entry = Normal,
               stepper_combo = ''Select stepper driver'', stepper_list = [],
               app_version = ver, product_name = pname, ex_turntable_dir = dir,
               product_version_name = None, product_major_version = None,
               product_minor_version = None, product_patch_version = None\<rparr>"

subsection \<open>\<^verbatim>\<open>generate_config\<close>\<close>

text \<open>
  \<^verbatim>\<open>generate_config\<close> is a sequence of blocks, one for each directive of
  \<^verbatim>\<open>config.h\<close>, in the order of \<open>schema\<close>. A block appends to \<^verbatim>\<open>param_errors\<close> or to
  \<^verbatim>\<open>config_list\<close>; \<open>block s d\<close> is what the block of \<open>d\<close> appends to the one and to the
  other, or the exception that leaves the method.
\<close>

datatype directive =
    I2C_ADDRESS | TURNTABLE_EX_MODE | SENSOR_TESTING | HOME_SENSOR_ACTIVE_STATE
  | LIMIT_SENSOR_ACTIVE_STATE | RELAY_ACTIVE_STATE | PHASE_SWITCHING | PHASE_SWITCH_ANGLE
  | STEPPER_DRIVER | DISABLE_OUTPUTS_IDLE | STEPPER_MAX_SPEED | STEPPER_ACCELERATION
  | STEPPER_GEARING_FACTOR | INVERT_DIRECTION | INVERT_STEP | INVERT_ENABLE
  | ROTATE_FORWARD_ONLY | ROTATE_REVERSE_ONLY | LED_FAST | LED_SLOW | DEBUG
  | SANITY_STEPS | HOME_SENSITIVITY | FULL_STEP_COUNT | DEBOUNCE_DELAY

definition schema :: "directive list" where
  "schema =
     [I2C_ADDRESS, TURNTABLE_EX_MODE, SENSOR_TESTING, HOME_SENSOR_ACTIVE_STATE,
      LIMIT_SENSOR_ACTIVE_STATE, RELAY_ACTIVE_STATE, PHASE_SWITCHING, PHASE_SWITCH_ANGLE,
      STEPPER_DRIVER, DISABLE_OUTPUTS_IDLE, STEPPER_MAX_SPEED, STEPPER_ACCELERATION,
      STEPPER_GEARING_FACTOR, INVERT_DIRECTION, INVERT_STEP, INVERT_ENABLE,
      ROTATE_FORWARD_ONLY, ROTATE_REVERSE_ONLY, LED_FAST, LED_SLOW, DEBUG,
      SANITY_STEPS, HOME_SENSITIVITY, FULL_STEP_COUNT, DEBOUNCE_DELAY]"

type_synonym appended = "string list \<times> string list"

text \<open>\<^verbatim>\<open>f"#define NAME {value}\n"\<close> and \<^verbatim>\<open>"#define NAME\n"\<close>.\<close>

definition hash_define :: "string \<Rightarrow> string \<Rightarrow> string" where
  "hash_define name v = ''#define '' @ name @ '' '' @ v @ [nl]"

definition flag :: "string \<Rightarrow> string" where
  "flag name = ''#define '' @ name @ [nl]"

definition commented :: "string \<Rightarrow> string" where
  "commented l = ''// '' @ l"

text \<open>
  The three shapes the blocks share. \<open>bounded\<close>: \<^verbatim>\<open>try: int(x)\<close>, one message when
  that fails, another when the number is out of range, the directive otherwise.
  \<open>override\<close>: with the switch on, the directive with the entry's text when that is a
  number and a message when it is not; with the switch off, the fixed line.
  \<open>on_off\<close>: the directive, or the same line commented out.
\<close>

definition bounded :: "string \<Rightarrow> string \<Rightarrow> string \<Rightarrow> int \<Rightarrow> int \<Rightarrow> string \<Rightarrow> appended" where
  "bounded name x not_numeric lo hi out_of_range =
     (case py_int x of
        None \<Rightarrow> ([not_numeric], [])
      | Some n \<Rightarrow> if n < lo \<or> n > hi then ([out_of_range], []) else ([], [hash_define name x]))"

definition override :: "bool \<Rightarrow> string \<Rightarrow> string \<Rightarrow> string \<Rightarrow> string \<Rightarrow> appended" where
  "override on name x not_numeric fixed =
     (if on
      then (case py_int x of None \<Rightarrow> ([not_numeric], []) | Some n \<Rightarrow> ([], [hash_define name x]))
      else ([], [fixed]))"

definition on_off :: "bool \<Rightarrow> string \<Rightarrow> appended" where
  "on_off on name = (if on then ([], [flag name]) else ([], [commented (flag name)]))"

definition i2c_range_error :: string where
  "i2c_range_error = ''I'' @ sup2 @ ''C address must be between 0x8 and 0x77''"

definition forward_only_error :: string where
  "forward_only_error = ''Traverser mode is incompatible with forward only rotation''"

definition reverse_only_error :: string where
  "reverse_only_error = ''Traverser mode is incompatible with reverse only rotation''"

fun block :: "turntable \<Rightarrow> directive \<Rightarrow> exc + appended" where
  "block s I2C_ADDRESS =
     (case py_int (vars s i2c_address) of
        None \<Rightarrow> Inl ValueError
      | Some n \<Rightarrow>
          Inr (if n < 8 \<or> n > 77 then ([i2c_range_error], [])
               else ([], [''#define I2C_ADDRESS 0x'' @ vars s i2c_address @ [nl]])))"
| "block s TURNTABLE_EX_MODE = Inr ([], [hash_define ''TURNTABLE_EX_MODE'' (sw_get s mode_switch)])"
| "block s SENSOR_TESTING =
     Inr (on_off (sw_get s sensor_test_switch = ''on'') ''SENSOR_TESTING'')"
| "block s HOME_SENSOR_ACTIVE_STATE =
     Inr ([], [hash_define ''HOME_SENSOR_ACTIVE_STATE'' (sw_get s home_switch)])"
| "block s LIMIT_SENSOR_ACTIVE_STATE =
     Inr ([], [hash_define ''LIMIT_SENSOR_ACTIVE_STATE'' (sw_get s limit_switch)])"
| "block s RELAY_ACTIVE_STATE =
     Inr ([], [hash_define ''RELAY_ACTIVE_STATE'' (sw_get s relay_switch)])"
| "block s PHASE_SWITCHING = Inr ([], [hash_define ''PHASE_SWITCHING'' (sw_get s auto_switch)])"
| "block s PHASE_SWITCH_ANGLE =
     Inr (if sw_get s auto_switch = ''AUTO''
          then bounded ''PHASE_SWITCH_ANGLE'' (vars s phase_angle)
                 ''Phase switch angle must be between 0 and 180'' 0 180
                 ''Phase switch angle must be between 0 and 180''
          else ([], []))"
| "block s STEPPER_DRIVER =
     Inr (if stepper_combo s = ''Select stepper driver''
          then ([''You must select a stepper driver''], [])
          else ([], [hash_define ''STEPPER_DRIVER'' (stepper_combo s)]))"
| "block s DISABLE_OUTPUTS_IDLE =
     Inr (if sw_get s disable_idle_switch = ''on'' then ([], [flag ''DISABLE_OUTPUTS_IDLE''])
          else ([], []))"
| "block s STEPPER_MAX_SPEED =
     Inr (bounded ''STEPPER_MAX_SPEED'' (vars s speed)
            ''You must provide a numeric speed value'' 10 20000
            ''Speed must be between 10 and 20000'')"
| "block s STEPPER_ACCELERATION =
     Inr (bounded ''STEPPER_ACCELERATION'' (vars s accel)
            ''You must provide a numeric acceleration value'' 1 1000
            ''Acceleration must be between 1 and 1000'')"
| "block s STEPPER_GEARING_FACTOR =
     Inr (if gearing_entry s = Normal
          then bounded ''STEPPER_GEARING_FACTOR'' (vars s gearing)
                 ''You must provide a numeric gearing factor'' 1 10
                 ''Gearing factor must be between 1 and 10''
          else ([], []))"
| "block s INVERT_DIRECTION =
     Inr (if cget_state s invert_dir_switch = Normal
          then on_off (sw_get s invert_dir_switch = ''on'') ''INVERT_DIRECTION''
          else ([], []))"
| "block s INVERT_STEP =
     Inr (if cget_state s invert_step_switch = Normal
          then on_off (sw_get s invert_step_switch = ''on'') ''INVERT_STEP''
          else ([], []))"
| "block s INVERT_ENABLE =
     Inr (if cget_state s invert_enable_switch = Normal
          then on_off (sw_get s invert_enable_switch = ''on'') ''INVERT_ENABLE''
          else ([], []))"
| "block s ROTATE_FORWARD_ONLY =
     Inr (if cget_state s forward_only_switch = Normal
          then (if sw_get s forward_only_switch = ''on''
                then (if sw_get s mode_switch = ''TRAVERSER'' then ([forward_only_error], [])
                      else ([], [flag ''ROTATE_FORWARD_ONLY'']))
                else ([], [commented (flag ''ROTATE_FORWARD_ONLY'')]))
          else ([], []))"
| "block s ROTATE_REVERSE_ONLY =
     Inr (if cget_state s reverse_only_switch = Normal
          then (if sw_get s reverse_only_switch = ''on''
                then (if sw_get s mode_switch = ''TRAVERSER'' then ([reverse_only_error], [])
                      else ([], [flag ''ROTATE_REVERSE_ONLY'']))
                else ([], [commented (flag ''ROTATE_REVERSE_ONLY'')]))
          else ([], []))"
| "block s LED_FAST =
     Inr (override (sw_get s led_fast_switch = ''on'') ''LED_FAST'' (vars s led_fast)
            ''Fast LED delay must be numeric'' (hash_define ''LED_FAST'' ''100''))"
| "block s LED_SLOW =
     Inr (override (sw_get s led_slow_switch = ''on'') ''LED_SLOW'' (vars s led_slow)
            ''Slow LED delay must be numeric'' (hash_define ''LED_SLOW'' ''500''))"
| "block s DEBUG = Inr (on_off (sw_get s debug_switch = ''on'') ''DEBUG'')"
| "block s SANITY_STEPS =
     Inr (override (sw_get s sanity_steps_switch = ''on'') ''SANITY_STEPS'' (vars s sanity_steps)
            ''Sanity step count must be numeric'' (commented (hash_define ''SANITY_STEPS'' ''10000'')))"
| "block s HOME_SENSITIVITY =
     Inr (override (sw_get s home_sensitivity_switch = ''on'') ''HOME_SENSITIVITY''
            (vars s home_sensitivity)
            ''Home sensitivity step count must be numeric''
            (commented (hash_define ''HOME_SENSITIVITY'' ''300'')))"
| "block s FULL_STEP_COUNT =
     Inr (override (sw_get s full_step_count_switch = ''on'') ''FULL_STEP_COUNT''
            (vars s full_step_count)
            ''Full step count must be numeric'' (commented (hash_define ''FULL_STEP_COUNT'' ''4096'')))"
| "block s DEBOUNCE_DELAY =
     Inr (override (sw_get s debounce_delay_switch = ''on'') ''DEBOUNCE_DELAY''
            (vars s debounce_delay)
            ''Debounce delay must be numeric'' (commented (hash_define ''DEBOUNCE_DELAY'' ''10'')))"

text \<open>The blocks of \<open>ds\<close> run in order on the two lists; an exception ends the run.\<close>

fun run_blocks :: "turntable \<Rightarrow> directive list \<Rightarrow> appended \<Rightarrow> exc + appended" where
  "run_blocks s [] acc = Inr acc"
| "run_blocks s (d # ds) acc =
     (case block s d of
        Inl e \<Rightarrow> Inl e
      | Inr ap \<Rightarrow> run_blocks s ds (fst acc @ fst ap, snd acc @ snd ap))"

text \<open>
  The file manager (\<^verbatim>\<open>file_manager.py\<close>) is a collaborator: \<open>get_filepath\<close> joins a
  directory and a file name, \<open>write_config_file\<close> returns the path it wrote or the text of
  its failure.
\<close>

record file_manager =
  get_filepath :: "string \<Rightarrow> string \<Rightarrow> string"
  write_config_file :: "string \<Rightarrow> string list \<Rightarrow> string"

text \<open>
  What one run of \<^verbatim>\<open>generate_config\<close> does once the blocks have run:
  \<^item> \<open>ValidationFailed errs msg\<close>: \<^verbatim>\<open>process_error(msg)\<close> with the joined errors; nothing is
    handed to the file manager;
  \<^item> \<open>WriteFailed path contents msg\<close>: the file manager was given \<open>contents\<close> for \<open>path\<close>
    and did not return the path; \<^verbatim>\<open>process_error(msg)\<close>;
  \<^item> \<open>ConfigWritten path contents view product\<close>: the file was written and
    \<^verbatim>\<open>switch_view(view, product)\<close> is called on the root window.
\<close>

datatype outcome =
    ValidationFailed "string list" string
  | WriteFailed string "string list" string
  | ConfigWritten string "string list" string string

fun write_request :: "outcome \<Rightarrow> (string \<times> string list) option" where
  "write_request (ValidationFailed errs msg) = None"
| "write_request (WriteFailed path contents msg) = Some (path, contents)"
| "write_request (ConfigWritten path contents v p) = Some (path, contents)"

fun param_errors :: "outcome \<Rightarrow> string list" where
  "param_errors (ValidationFailed errs msg) = errs"
| "param_errors (WriteFailed path contents msg) = []"
| "param_errors (ConfigWritten path contents v p) = []"

definition header :: "turntable \<Rightarrow> string" where
  "header s =
     ''// config.h - Generated by EX-Installer '' @ ''v'' @ app_version s @ '' for ''
       @ product_name s @ '' '' @ fmt (product_version_name s) @ [nl, nl]"

definition finish :: "file_manager \<Rightarrow> turntable \<Rightarrow> appended \<Rightarrow> outcome" where
  "finish fm s ap =
     (if length (fst ap) > 0
      then ValidationFailed (fst ap) (join '', '' (fst ap))
      else (let file_contents = [header s] @ snd ap;
                config_file_path = get_filepath fm (ex_turntable_dir s) ''config.h'';
                write_config = write_config_file fm config_file_path file_contents
            in if write_config \<noteq> config_file_path
               then WriteFailed config_file_path file_contents
                      (''Could not write config.h: '' @ write_config)
               else ConfigWritten config_file_path file_contents
                      (if sw_get s advanced_config_enabled = ''on'' then ''advanced_config''
                       else ''compile_upload'')
                      ''ex_turntable''))"

definition generate_config :: "file_manager \<Rightarrow> turntable \<Rightarrow> exc + outcome" where
  "generate_config fm s =
     (case run_blocks s schema ([], []) of
        Inl e \<Rightarrow> Inl e
      | Inr ap \<Rightarrow> Inr (finish fm s ap))"

text \<open>
  The rule each parameter is checked against, read off its block: \<open>invalid s d\<close> holds
  when the value behind \<open>d\<close> does not convert or is out of range, or breaks the rule
  that ties it to the mode. \<open>editable s d\<close> is the state of the widget that the version
  gate of \<^verbatim>\<open>set_product_version\<close> enables or disables.
\<close>

definition out_of :: "string \<Rightarrow> int \<Rightarrow> int \<Rightarrow> bool" where
  "out_of x lo hi = (case py_int x of None \<Rightarrow> True | Some n \<Rightarrow> n < lo \<or> n > hi)"

fun editable :: "turntable \<Rightarrow> directive \<Rightarrow> bool" where
  "editable s STEPPER_GEARING_FACTOR = (gearing_entry s = Normal)"
| "editable s INVERT_DIRECTION = (cget_state s invert_dir_switch = Normal)"
| "editable s INVERT_STEP = (cget_state s invert_step_switch = Normal)"
| "editable s INVERT_ENABLE = (cget_state s invert_enable_switch = Normal)"
| "editable s ROTATE_FORWARD_ONLY = (cget_state s forward_only_switch = Normal)"
| "editable s ROTATE_REVERSE_ONLY = (cget_state s reverse_only_switch = Normal)"
| "editable s _ = True"

fun invalid :: "turntable \<Rightarrow> directive \<Rightarrow> bool" where
  "invalid s I2C_ADDRESS = out_of (vars s i2c_address) 8 77"
| "invalid s PHASE_SWITCH_ANGLE =
     (sw_get s auto_switch = ''AUTO'' \<and> out_of (vars s phase_angle) 0 180)"
| "invalid s STEPPER_DRIVER = (stepper_combo s = ''Select stepper driver'')"
| "invalid s STEPPER_MAX_SPEED = out_of (vars s speed) 10 20000"
| "invalid s STEPPER_ACCELERATION = out_of (vars s accel) 1 1000"
| "invalid s STEPPER_GEARING_FACTOR =
     (gearing_entry s = Normal \<and> out_of (vars s gearing) 1 10)"
| "invalid s ROTATE_FORWARD_ONLY =
     (cget_state s forward_only_switch = Normal \<and> sw_get s forward_only_switch = ''on''
      \<and> sw_get s mode_switch = ''TRAVERSER'')"
| "invalid s ROTATE_REVERSE_ONLY =
     (cget_state s reverse_only_switch = Normal \<and> sw_get s reverse_only_switch = ''on''
      \<and> sw_get s mode_switch = ''TRAVERSER'')"
| "invalid s LED_FAST = (sw_get s led_fast_switch = ''on'' \<and> py_int (vars s led_fast) = None)"
| "invalid s LED_SLOW = (sw_get s led_slow_switch = ''on'' \<and> py_int (vars s led_slow) = None)"
| "invalid s SANITY_STEPS =
     (sw_get s sanity_steps_switch = ''on'' \<and> py_int (vars s sanity_steps) = None)"
| "invalid s HOME_SENSITIVITY =
     (sw_get s home_sensitivity_switch = ''on'' \<and> py_int (vars s home_sensitivity) = None)"
| "invalid s FULL_STEP_COUNT =
     (sw_get s full_step_count_switch = ''on'' \<and> py_int (vars s full_step_count) = None)"
| "invalid s DEBOUNCE_DELAY =
     (sw_get s debounce_delay_switch = ''on'' \<and> py_int (vars s debounce_delay) = None)"
| "invalid s _ = False"

text \<open>A line is the directive \<open>name\<close>, active or commented out.\<close>

definition directive_line :: "string \<Rightarrow> string \<Rightarrow> bool" where
  "directive_line name l = (prefix (''#define '' @ name) l \<or> prefix (''// #define '' @ name) l)"

text \<open>A file manager that writes what it is given, for the examples.\<close>

definition fm_ok :: file_manager where
  "fm_ok = \<lparr>get_filepath = (\<lambda>d f. d @ ''/'' @ f), write_config_file = (\<lambda>p c. p)\<rparr>"

text \<open>Choosing an entry of the stepper combo box puts its text into the box.\<close>

definition choose_stepper :: "string \<Rightarrow> turntable \<Rightarrow> turntable" where
  "choose_stepper v s = s\<lparr>stepper_combo := v\<rparr>"

text \<open>One step after another, as long as none raises.\<close>

definition then_do :: "exc + 'a \<Rightarrow> ('a \<Rightarrow> exc + 'b) \<Rightarrow> exc + 'b" where
  "then_do r f = (case r of Inl e \<Rightarrow> Inl e | Inr x \<Rightarrow> f x)"

text \<open>
  The screen as it is first shown, for the examples (the installer's version, the
  product's name and the directory are those of one installation).
\<close>

definition example_screen :: turntable where
  "example_screen = setup_config_frame ''0.0.8'' ''EX-Turntable'' ''EX-Turntable''"

text \<open>
  The directives of the screen's first values with the relay active low and the stepper
  \<open>stepper\<close> chosen, for a version from 0.6.0 and before 0.7.0.
\<close>

definition v061_lines :: "string \<Rightarrow> string list" where
  "v061_lines stepper =
     [''#define I2C_ADDRESS 0x60\<newline>'',
      ''#define TURNTABLE_EX_MODE TURNTABLE\<newline>'',
      ''// #define SENSOR_TESTING\<newline>'',
      ''#define HOME_SENSOR_ACTIVE_STATE LOW\<newline>'',
      ''#define LIMIT_SENSOR_ACTIVE_STATE LOW\<newline>'',
      ''#define RELAY_ACTIVE_STATE LOW\<newline>'',
      ''#define PHASE_SWITCHING AUTO\<newline>'',
      ''#define PHASE_SWITCH_ANGLE 45\<newline>'',
      ''#define STEPPER_DRIVER '' @ stepper @ ''\<newline>'',
      ''#define DISABLE_OUTPUTS_IDLE\<newline>'',
      ''#define STEPPER_MAX_SPEED 200\<newline>'',
      ''#define STEPPER_ACCELERATION 25\<newline>'',
      ''#define STEPPER_GEARING_FACTOR 1\<newline>'',
      ''#define LED_FAST 100\<newline>'',
      ''#define LED_SLOW 500\<newline>'',
      ''// #define DEBUG\<newline>'',
      ''// #define SANITY_STEPS 10000\<newline>'',
      ''// #define HOME_SENSITIVITY 300\<newline>'',
      ''// #define FULL_STEP_COUNT 4096\<newline>'',
      ''// #define DEBOUNCE_DELAY 10\<newline>'']"

text \<open>The first line of the file for the example screen under version \<open>v0.6.1-Prod\<close>.\<close>

definition example_header :: string where
  "example_header =
     ''// config.h - Generated by EX-Installer v0.0.8 for EX-Turntable v0.6.1-Prod\<newline>\<newline>''"


subsection \<open>The root window: \<^verbatim>\<open>switch_view\<close>\<close>

text \<open>
  The view classes of the registry \<^verbatim>\<open>self.views\<close> are not part of the modelled files
  (but \<^verbatim>\<open>SelectProduct\<close>), so the registry is a parameter. What \<^verbatim>\<open>switch_view\<close> asks of
  a class is whether its instances have a \<^verbatim>\<open>product\<close> attribute after \<^verbatim>\<open>__init__\<close>
  (\<open>init_product\<close>: \<open>None\<close> when they have none, \<open>Some v\<close> for the value \<open>v\<close>, itself a
  string or \<^verbatim>\<open>None\<close>) and whether they have the methods \<^verbatim>\<open>set_product\<close> and
  \<^verbatim>\<open>set_product_version\<close>.
\<close>

record view_class =
  init_product :: "string option option"
  has_set_product :: bool
  has_set_product_version :: bool

type_synonym version_details = "int option \<times> int option \<times> int option"

record view_obj =
  klass :: view_class
  attr_product :: "string option option"
  attr_version :: "(string option \<times> version_details) option"
  destroyed :: bool

text \<open>
  \<^verbatim>\<open>self.view\<close> and the values of \<^verbatim>\<open>self.frames\<close> refer to shared view objects, so the
  objects live in a store and are named by their addresses. The addresses below \<open>fresh\<close>
  are the allocated ones. \<open>front\<close> is the view that \<^verbatim>\<open>grid\<close> or \<^verbatim>\<open>tkraise\<close> put on top
  last.
\<close>

record installer =
  objs :: "nat \<Rightarrow> view_obj"
  fresh :: nat
  frames :: "string \<rightharpoonup> nat"
  view :: "nat option"
  front :: "nat option"

text \<open>
  \<open>views\<close> is \<^verbatim>\<open>self.views\<close>; \<open>extract_version_details\<close> is the method of that name of
  \<^verbatim>\<open>GitClient\<close> (\<^verbatim>\<open>git_client.py\<close>), which returns the numbers of a version tag.
\<close>

record env =
  views :: "string \<rightharpoonup> view_class"
  extract_version_details :: "string \<Rightarrow> version_details"

text \<open>A method either returns, or raises and leaves the state as it was at that point.\<close>

datatype 's result = Returned 's | Raised exc 's

fun state_of :: "'s result \<Rightarrow> 's" where
  "state_of (Returned s) = s"
| "state_of (Raised e s) = s"

fun raised :: "'s result \<Rightarrow> exc option" where
  "raised (Returned s) = None"
| "raised (Raised e s) = Some e"

definition and_then :: "'s result \<Rightarrow> ('s \<Rightarrow> 's result) \<Rightarrow> 's result" where
  "and_then r f = (case r of Returned s \<Rightarrow> f s | Raised e s \<Rightarrow> Raised e s)"

definition upd_obj :: "nat \<Rightarrow> (view_obj \<Rightarrow> view_obj) \<Rightarrow> installer \<Rightarrow> installer" where
  "upd_obj a f s = s\<lparr>objs := (objs s)(a := f (objs s a))\<rparr>"

text \<open>
  \<^verbatim>\<open>self.views[view_class](self)\<close> once the class is found: a new object at a fresh
  address. The constructors are taken to return.
\<close>

definition construct :: "view_class \<Rightarrow> installer \<Rightarrow> nat \<times> installer" where
  "construct c s =
     (fresh s,
      s\<lparr>objs := (objs s)(fresh s := \<lparr>klass = c, attr_product = init_product c,
                                      attr_version = None, destroyed = False\<rparr>),
        fresh := Suc (fresh s)\<rparr>)"

definition destroy :: "nat \<Rightarrow> installer \<Rightarrow> installer" where
  "destroy a s =
     (upd_obj a (\<lambda>ob. ob\<lparr>destroyed := True\<rparr>) s)
       \<lparr>front := (if front s = Some a then None else front s)\<rparr>"

definition grid :: "nat \<Rightarrow> installer \<Rightarrow> installer" where
  "grid a s = s\<lparr>front := Some a\<rparr>"

definition tkraise :: "nat \<Rightarrow> installer \<Rightarrow> installer" where
  "tkraise a s = s\<lparr>front := Some a\<rparr>"

text \<open>
  Modelled from the spec: the hooks \<^verbatim>\<open>set_product\<close> and \<^verbatim>\<open>set_product_version\<close> of the
  view classes that are not among the modelled files (\<^verbatim>\<open>SelectVersionConfig\<close>,
  \<^verbatim>\<open>CompileUpload\<close>, \<^verbatim>\<open>EXCommandStation\<close>). The one records the product in the view, the
  other the version it is given. A call of a method the class does not have raises
  \<^verbatim>\<open>AttributeError\<close>.
\<close>

definition set_product :: "nat \<Rightarrow> string option \<Rightarrow> installer \<Rightarrow> installer result" where
  "set_product a product s =
     (if has_set_product (klass (objs s a))
      then Returned (upd_obj a (\<lambda>ob. ob\<lparr>attr_product := Some product\<rparr>) s)
      else Raised AttributeError s)"

text \<open>
  \<^verbatim>\<open>self.view.set_product_version(version, *version_details)\<close>: the local
  \<^verbatim>\<open>version_details\<close> is \<open>None\<close> while nothing has been assigned to it, and reading it
  then raises \<^verbatim>\<open>UnboundLocalError\<close>.
\<close>

definition call_set_product_version ::
  "nat \<Rightarrow> string option \<Rightarrow> version_details option \<Rightarrow> installer \<Rightarrow> installer result" where
  "call_set_product_version a version version_details s =
     (case version_details of
        None \<Rightarrow> Raised UnboundLocalError s
      | Some d \<Rightarrow> Returned (upd_obj a (\<lambda>ob. ob\<lparr>attr_version := Some (version, d)\<rparr>) s))"

text \<open>\<^verbatim>\<open>if version:\<close> for a string or \<^verbatim>\<open>None\<close>.\<close>

definition truthy :: "string option \<Rightarrow> bool" where
  "truthy v = (case v of None \<Rightarrow> False | Some t \<Rightarrow> t \<noteq> [])"

text \<open>The product of the view that is active when \<^verbatim>\<open>switch_view\<close> is called.\<close>

definition calling_product :: "installer \<Rightarrow> string option" where
  "calling_product s =
     (case view s of
        None \<Rightarrow> None
      | Some v \<Rightarrow> (case attr_product (objs s v) of None \<Rightarrow> None | Some p \<Rightarrow> p))"

definition recreated :: "string \<Rightarrow> string option \<Rightarrow> string option \<Rightarrow> bool" where
  "recreated view_class product calling =
     (view_class = ''compile_upload''
      \<or> (view_class = ''select_version_config'' \<and> product \<noteq> calling))"

text \<open>The views that take a product when they are launched.\<close>

definition product_view :: "string \<Rightarrow> bool" where
  "product_view view_class =
     (view_class = ''compile_upload'' \<or> view_class = ''select_version_config'')"

text \<open>
  The three ways \<^verbatim>\<open>switch_view\<close> brings a view up, named after what each logs.
  \<open>launch\<close>: the view is not in \<^verbatim>\<open>frames\<close>; an instance of the class \<open>c\<close> is made.
  \<open>change_product\<close>: the cached view has been destroyed and an instance of \<open>c\<close> takes
  its place. \<open>raise_view\<close>: the cached view at \<open>a\<close> is raised as it is.
\<close>

definition launch ::
  "view_class \<Rightarrow> string \<Rightarrow> string option \<Rightarrow> string option \<Rightarrow> version_details option
     \<Rightarrow> installer \<Rightarrow> installer result" where
  "launch c view_class product version version_details s =
     (let (n, s1) = construct c s;
          s2 = s1\<lparr>view := Some n\<rparr>;
          s3 = s2\<lparr>frames := (frames s2)(view_class \<mapsto> n)\<rparr>
      in and_then (if product_view view_class then set_product n product s3 else Returned s3)
           (\<lambda>s4.
         and_then (if has_set_product_version (klass (objs s4 n))
                   then call_set_product_version n version version_details s4
                   else Returned s4) (\<lambda>s5.
         Returned (grid n s5))))"

definition change_product ::
  "view_class \<Rightarrow> string \<Rightarrow> string option \<Rightarrow> string option \<Rightarrow> version_details option
     \<Rightarrow> installer \<Rightarrow> installer result" where
  "change_product c view_class product version version_details s =
     (let (n, s1) = construct c s;
          s2 = s1\<lparr>view := Some n\<rparr>;
          s3 = s2\<lparr>frames := (frames s2)(view_class \<mapsto> n)\<rparr>
      in and_then (set_product n product s3) (\<lambda>s4.
         and_then (if has_set_product_version (klass (objs s4 n))
                   then call_set_product_version n version version_details s4
                   else Returned s4) (\<lambda>s5.
         Returned (grid n s5))))"

definition raise_view ::
  "nat \<Rightarrow> string \<Rightarrow> string option \<Rightarrow> string option \<Rightarrow> version_details option
     \<Rightarrow> installer \<Rightarrow> installer result" where
  "raise_view a view_class product version version_details s =
     and_then (if view_class = ''select_version_config''
               then set_product a product s else Returned s) (\<lambda>s1.
     and_then (if truthy version \<and> has_set_product_version (klass (objs s1 a))
               then call_set_product_version a version version_details s1
               else Returned s1) (\<lambda>s2.
     Returned (tkraise a s2)))"

definition switch_view ::
  "env \<Rightarrow> string \<Rightarrow> string option \<Rightarrow> string option \<Rightarrow> installer \<Rightarrow> installer result" where
  "switch_view env view_class product version s =
     (if view_class = [] then Returned s
      else
       (let version_details =
              (if truthy version then map_option (extract_version_details env) version
               else None);
            calling = calling_product s
        in case frames s view_class of
             Some a \<Rightarrow>
               (let s1 = s\<lparr>view := Some a\<rparr> in
                if recreated view_class product calling
                then (let s2 = destroy a s1 in
                      case views env view_class of
                        None \<Rightarrow> Raised (KeyError view_class) s2
                      | Some c \<Rightarrow> change_product c view_class product version version_details s2)
                else raise_view a view_class product version version_details s1)
           | None \<Rightarrow>
               (case views env view_class of
                  None \<Rightarrow> Raised (KeyError view_class) s
                | Some c \<Rightarrow> launch c view_class product version version_details s)))"

text \<open>
  An exception that leaves a command of the window reaches
  \<^verbatim>\<open>report_callback_exception\<close>, which \<^verbatim>\<open>__init__\<close> sets to \<^verbatim>\<open>exception_handler\<close>: the
  handler shows one fixed message in a box of its own. \<open>Critical\<close> is that box;
  \<open>Quiet\<close> is a command that returned.
\<close>

datatype report = Quiet | Critical string

definition exception_handler :: "exc \<Rightarrow> report" where
  "exception_handler e =
     Critical (''EX-Installer experienced an unknown error, ''
               @ ''please send the log file to the DCC-EX team for further analysis'')"

definition report_callback :: "installer result \<Rightarrow> report \<times> installer" where
  "report_callback r =
     (case r of Returned s \<Rightarrow> (Quiet, s) | Raised e s \<Rightarrow> (exception_handler e, s))"

text \<open>The window before its first view: \<^verbatim>\<open>frames = {}\<close>, \<^verbatim>\<open>view = None\<close>.\<close>

definition no_class :: view_class where
  "no_class = \<lparr>init_product = None, has_set_product = False, has_set_product_version = False\<rparr>"

definition new_installer :: installer where
  "new_installer =
     \<lparr>objs = (\<lambda>a. \<lparr>klass = no_class, attr_product = None, attr_version = None,
                     destroyed = False\<rparr>),
      fresh = 0, frames = Map.empty, view = None, front = None\<rparr>"

text \<open>
  Modelled from the spec: a registry with the seven keys of \<^verbatim>\<open>self.views\<close>, for the
  examples. Of its classes only \<^verbatim>\<open>SelectProduct\<close> is among the modelled files (it sets
  \<^verbatim>\<open>self.product = None\<close> and has neither hook). For the others the registry follows the
  docstring of \<^verbatim>\<open>switch_view\<close>: \<^verbatim>\<open>compile_upload\<close> and \<^verbatim>\<open>select_version_config\<close> take a
  product, \<^verbatim>\<open>ex_commandstation\<close> takes the version.
\<close>

definition product_class :: view_class where
  "product_class = \<lparr>init_product = None, has_set_product = True, has_set_product_version = False\<rparr>"

definition sample_views :: "string \<rightharpoonup> view_class" where
  "sample_views =
     [''welcome'' \<mapsto> no_class,
      ''manage_arduino_cli'' \<mapsto> no_class,
      ''select_device'' \<mapsto> no_class,
      ''select_product'' \<mapsto> \<lparr>init_product = Some None, has_set_product = False,
                               has_set_product_version = False\<rparr>,
      ''select_version_config'' \<mapsto> product_class,
      ''ex_commandstation'' \<mapsto> \<lparr>init_product = Some (Some ''ex_commandstation''),
                                  has_set_product = False, has_set_product_version = True\<rparr>,
      ''compile_upload'' \<mapsto> product_class]"

definition sample_env :: env where
  "sample_env = \<lparr>views = sample_views, extract_version_details = (\<lambda>t. (None, None, None))\<rparr>"

text \<open>
  Three steps of one session with that registry: the EX-CommandStation screen is opened
  with a version, its \<^emph>\<open>next\<close> button opens the compile screen for the product, and the
  \<^emph>\<open>back\<close> button of that screen returns to the EX-CommandStation screen.
\<close>

definition visited_commandstation :: installer where
  "visited_commandstation =
     state_of (switch_view sample_env ''ex_commandstation'' None (Some ''v5.0.0-Prod'')
                 new_installer)"

definition visited_compile_upload :: installer where
  "visited_compile_upload =
     state_of (switch_view sample_env ''compile_upload'' (Some ''ex_commandstation'') None
                 visited_commandstation)"

definition back_at_commandstation :: installer where
  "back_at_commandstation =
     state_of (switch_view sample_env ''ex_commandstation'' None None visited_compile_upload)"

section \<open>Properties of the configuration screen\<close>

text \<open>The definitions that evaluate a run on a given screen.\<close>

lemmas py_int_eval = py_int_def py_nat_def strip_def is_space_def is_digit_def digit_val_def

lemmas widget_eval = example_screen_def setup_config_frame_def set_mode_def sw_get_def upd_switch_def
  configure_state_def initial_switch_def new_switch_def select_def set_product_version_def
  pre_minor_def
  get_steppers_def set_var_def deselect_def toggle_def command_def cget_state_def
  set_forward_only_def set_reverse_only_def choose_stepper_def then_do_def Let_def

lemmas emit_eval = schema_def bounded_def override_def on_off_def hash_define_def flag_def
  commented_def nl_def

lemma block_total:
  "py_int (vars s i2c_address) \<noteq> None \<Longrightarrow> \<exists>ap. block s d = Inr ap"
  by (cases d) auto

lemma block_error_count:
  "block s d = Inr ap \<Longrightarrow> length (fst ap) = (if invalid s d then 1 else 0)"
  by (cases d) (auto simp: bounded_def override_def on_off_def out_of_def split: option.splits if_splits)

lemma block_invalid_no_line:
  "block s d = Inr ap \<Longrightarrow> invalid s d \<Longrightarrow> snd ap = []"
  by (cases d) (auto simp: bounded_def override_def on_off_def out_of_def split: option.splits if_splits)

lemma block_valid_no_error:
  "block s d = Inr ap \<Longrightarrow> \<not> invalid s d \<Longrightarrow> fst ap = []"
  using block_error_count [of s d ap] by simp

lemma block_gated_off:
  "\<not> editable s d \<Longrightarrow> block s d = Inr ([], [])"
  by (cases d) auto

lemma run_blocks_total:
  "py_int (vars s i2c_address) \<noteq> None \<Longrightarrow> \<exists>r. run_blocks s ds acc = Inr r"
proof (induction ds arbitrary: acc)
  case Nil
  then show ?case by simp
next
  case (Cons d ds)
  from Cons.prems obtain ap where "block s d = Inr ap"
    using block_total by blast
  with Cons show ?case by simp
qed

lemma run_blocks_raises:
  "py_int (vars s i2c_address) = None \<Longrightarrow> run_blocks s (I2C_ADDRESS # ds) acc = Inl ValueError"
  by simp

lemma run_blocks_error_count:
  "run_blocks s ds acc = Inr r \<Longrightarrow>
     length (fst r) = length (fst acc) + length (filter (invalid s) ds)"
proof (induction ds arbitrary: acc)
  case Nil
  then show ?case by simp
next
  case (Cons d ds)
  then obtain ap where b: "block s d = Inr ap"
    by (cases "block s d") auto
  with Cons.prems have "run_blocks s ds (fst acc @ fst ap, snd acc @ snd ap) = Inr r"
    by simp
  from Cons.IH [OF this] block_error_count [OF b] show ?case
    by simp
qed

lemma run_blocks_mono:
  "run_blocks s ds acc = Inr r \<Longrightarrow> set (fst acc) \<subseteq> set (fst r)"
proof (induction ds arbitrary: acc)
  case Nil
  then show ?case by auto
next
  case (Cons d ds)
  then obtain ap where b: "block s d = Inr ap"
    by (cases "block s d") auto
  with Cons.prems have "run_blocks s ds (fst acc @ fst ap, snd acc @ snd ap) = Inr r"
    by simp
  from Cons.IH [OF this] show ?case by auto
qed

lemma run_blocks_has_error:
  "run_blocks s ds acc = Inr r \<Longrightarrow> d \<in> set ds \<Longrightarrow> block s d = Inr ap \<Longrightarrow>
     set (fst ap) \<subseteq> set (fst r)"
proof (induction ds arbitrary: acc)
  case Nil
  then show ?case by simp
next
  case (Cons x ds)
  then obtain ax where b: "block s x = Inr ax"
    by (cases "block s x") auto
  with Cons.prems have run: "run_blocks s ds (fst acc @ fst ax, snd acc @ snd ax) = Inr r"
    by simp
  show ?case
  proof (cases "d = x")
    case True
    with b Cons.prems have "ax = ap" by simp
    with run_blocks_mono [OF run] show ?thesis by auto
  next
    case False
    with Cons.prems have "d \<in> set ds" by simp
    from Cons.IH [OF run this Cons.prems(3)] show ?thesis .
  qed
qed

lemma run_blocks_skip:
  "block s d = Inr ([], []) \<Longrightarrow> run_blocks s (removeAll d ds) acc = run_blocks s ds acc"
  by (induction ds arbitrary: acc) (auto split: sum.splits)

lemma schema_distinct: "distinct schema"
  by (simp add: schema_def)

lemma schema_complete: "d \<in> set schema"
  by (cases d) (simp_all add: schema_def)

lemma finish_write:
  "write_request (finish fm s ap) = None \<longleftrightarrow> fst ap \<noteq> []"
  by (simp add: finish_def Let_def)

lemma finish_errors: "param_errors (finish fm s ap) = fst ap"
  by (simp add: finish_def Let_def)

lemma error_count:
  assumes "py_int (vars s i2c_address) \<noteq> None"
  shows "\<exists>out. generate_config fm s = Inr out
           \<and> length (param_errors out) = card {d. invalid s d}
           \<and> (write_request out = None \<longleftrightarrow> param_errors out \<noteq> [])"
proof -
  from run_blocks_total [OF assms] obtain r where r: "run_blocks s schema ([], []) = Inr r"
    by blast
  have "{d. invalid s d} = set (filter (invalid s) schema)"
    using schema_complete by auto
  then have "card {d. invalid s d} = length (filter (invalid s) schema)"
    by (simp only: distinct_card [OF distinct_filter [OF schema_distinct]])
  with run_blocks_error_count [OF r] r show ?thesis
    by (simp add: generate_config_def finish_write finish_errors)
qed

subsection \<open>The version gate\<close>

text \<open>
  Claim C10 (as amended). When \<^verbatim>\<open>set_product_version\<close> is called with no major, minor
  and patch number on a view that has no major version stored, the call returns, and the
  gearing entry and the five switches of the 0.7.0 features are all left enabled: every
  gated parameter is editable. The call stores only the numbers it is given, so the
  numbers of an earlier call stay.
\<close>

theorem no_version_numbers_all_editable:
  assumes "product_major_version s = None"
  shows "\<exists>s'. set_product_version def_list s version None None None = Inr s'
           \<and> product_major_version s' = None
           \<and> gearing_entry s' = Normal
           \<and> cget_state s' invert_dir_switch = Normal
           \<and> cget_state s' invert_step_switch = Normal
           \<and> cget_state s' invert_enable_switch = Normal
           \<and> cget_state s' forward_only_switch = Normal
           \<and> cget_state s' reverse_only_switch = Normal
           \<and> (\<forall>d. editable s' d)"
proof -
  let ?s' = "fold (\<lambda>w. upd_switch w (configure_state Normal))
               [invert_dir_switch, invert_step_switch, invert_enable_switch,
                forward_only_switch, reverse_only_switch]
               ((get_steppers def_list (s\<lparr>product_version_name := version\<rparr>))
                  \<lparr>gearing_entry := Normal\<rparr>)"
  have run: "set_product_version def_list s version None None None = Inr ?s'"
    using assms by (simp add: set_product_version_def pre_minor_def get_steppers_def Let_def)
  have st: "gearing_entry ?s' = Normal" "cget_state ?s' invert_dir_switch = Normal"
    "cget_state ?s' invert_step_switch = Normal" "cget_state ?s' invert_enable_switch = Normal"
    "cget_state ?s' forward_only_switch = Normal" "cget_state ?s' reverse_only_switch = Normal"
    by (simp_all add: upd_switch_def configure_state_def cget_state_def get_steppers_def)
  have ed: "editable ?s' d" for d
    using st by (cases d) simp_all
  have mj: "product_major_version ?s' = None"
    using assms by (simp add: upd_switch_def get_steppers_def)
  from run st ed mj show ?thesis by blast
qed

text \<open>
  On the screen in traverser mode the forward-only switch is disabled; the call enables
  it.
\<close>

theorem no_version_numbers_all_editable_witness:
  "product_major_version (toggle mode_switch example_screen) = None
   \<and> cget_state (toggle mode_switch example_screen) forward_only_switch = Disabled
   \<and> \<not> editable (toggle mode_switch example_screen) ROTATE_FORWARD_ONLY
   \<and> (\<exists>s'. set_product_version [] (toggle mode_switch example_screen) None None None None
               = Inr s'
           \<and> cget_state s' forward_only_switch = Normal
           \<and> (\<forall>d. editable s' d))"
proof -
  let ?s = "toggle mode_switch example_screen"
  have h: "product_major_version ?s = None"
    by (simp add: widget_eval)
  have d: "cget_state ?s forward_only_switch = Disabled"
    by (simp add: widget_eval)
  then have e: "\<not> editable ?s ROTATE_FORWARD_ONLY" by simp
  from no_version_numbers_all_editable [OF h, of "[]" None] h d e show ?thesis
    by blast
qed

text \<open>
  The claim as stated covers every call without numbers. On a view that stored 0.5.0
  before, such a call keeps the stored numbers, and the gearing entry and the five
  switches stay disabled.
\<close>

theorem stored_version_keeps_gate_closed:
  "then_do (set_product_version [] example_screen (Some ''v0.5.0-Prod'') (Some 0) (Some 5) (Some 0))
     (\<lambda>s1. then_do (set_product_version [] s1 (Some ''main'') None None None)
       (\<lambda>s2. Inr (product_major_version s2, product_minor_version s2, gearing_entry s2,
                   map (cget_state s2) [invert_dir_switch, invert_step_switch,
                     invert_enable_switch, forward_only_switch, reverse_only_switch],
                   editable s2 STEPPER_GEARING_FACTOR, editable s2 INVERT_DIRECTION)))
   = Inr (Some 0, Some 5, Disabled, [Disabled, Disabled, Disabled, Disabled, Disabled],
          False, False)"
  by (simp add: widget_eval)

subsection \<open>Parameters that fail their check\<close>

text \<open>
  The text of the address is converted outside any \<^verbatim>\<open>try\<close>: when it is not a number the
  \<^verbatim>\<open>ValueError\<close> leaves \<^verbatim>\<open>generate_config\<close>. Every other parameter that fails its check
  adds one message and no directive.
\<close>

lemma i2c_text_raises:
  "py_int (vars s i2c_address) = None \<Longrightarrow> generate_config fm s = Inl ValueError"
  by (simp add: generate_config_def schema_def)

lemma failed_parameter_reported:
  assumes "invalid s d" "block s d = Inr ap"
  shows "\<exists>e. ap = ([e], [])"
proof -
  from block_error_count [OF assms(2)] assms(1) have "length (fst ap) = 1" by simp
  then obtain e where "fst ap = [e]"
    by (cases "fst ap") auto
  with block_invalid_no_line [OF assms(2) assms(1)] show ?thesis
    by (cases ap) auto
qed

lemma distinct_singleton:
  assumes "distinct xs" "set xs = {x}"
  shows "xs = [x]"
proof (cases xs)
  case Nil
  with assms(2) show ?thesis by simp
next
  case (Cons y ys)
  with assms(2) have y: "y = x" by auto
  from Cons assms have "set ys \<subseteq> {x}" "x \<notin> set ys"
    using y by auto
  then have "ys = []" by (cases ys) auto
  with Cons y show ?thesis by simp
qed

lemma only_invalid_filter:
  assumes "{d. invalid s d} = {x}"
  shows "filter (invalid s) schema = [x]"
proof -
  have "set (filter (invalid s) schema) = {x}"
    using assms schema_complete by auto
  moreover have "distinct (filter (invalid s) schema)"
    using schema_distinct by simp
  ultimately show ?thesis
    by (rule distinct_singleton [rotated])
qed

lemma example_invalid:
  "invalid (set_var i2c_address ''5'' (choose_stepper ''AF_A4988'' example_screen)) d
     \<longleftrightarrow> d = I2C_ADDRESS"
  by (cases d) (simp_all add: widget_eval out_of_def py_int_eval)

text \<open>
  Claim C4. A parameter whose text does not convert, or whose number is out of range,
  adds a message to the error list and no directive, and no exception leaves
  \<^verbatim>\<open>generate_config\<close>. The code breaks this for the address: with the text \<open>abc\<close> in
  the address entry, on the screen's first values and a stepper chosen, the run ends in
  \<^verbatim>\<open>ValueError\<close> and no error list is made.
\<close>

theorem i2c_text_not_a_number_raises:
  "py_int ''abc'' = None
   \<and> generate_config fm_ok (set_var i2c_address ''abc'' (choose_stepper ''AF_A4988'' example_screen))
       = Inl ValueError"
proof -
  have p: "py_int ''abc'' = None"
    by (simp add: py_int_eval)
  then have "py_int (vars (set_var i2c_address ''abc''
               (choose_stepper ''AF_A4988'' example_screen)) i2c_address) = None"
    by (simp add: set_var_def)
  from i2c_text_raises [OF this] p show ?thesis by simp
qed

text \<open>
  Claim C2. A screen with \<open>N\<close> invalid parameters gives an error list of \<open>N\<close> entries
  and no write (\<open>error_count\<close> is this for every screen whose address text is a number).
  The code breaks it where the address text is not a number: with \<open>1A\<close> as the address
  and \<open>fast\<close> as the speed two parameters are invalid, and the run ends in
  \<^verbatim>\<open>ValueError\<close> with no error list.
\<close>

theorem two_invalid_parameters_no_error_list:
  "invalid (set_var speed ''fast'' (set_var i2c_address ''1A''
             (choose_stepper ''AF_A4988'' example_screen))) I2C_ADDRESS
   \<and> invalid (set_var speed ''fast'' (set_var i2c_address ''1A''
             (choose_stepper ''AF_A4988'' example_screen))) STEPPER_MAX_SPEED
   \<and> generate_config fm_ok (set_var speed ''fast'' (set_var i2c_address ''1A''
             (choose_stepper ''AF_A4988'' example_screen)))
       = Inl ValueError"
proof -
  let ?s = "set_var speed ''fast'' (set_var i2c_address ''1A''
             (choose_stepper ''AF_A4988'' example_screen))"
  have p: "py_int (vars ?s i2c_address) = None"
    by (simp add: set_var_def py_int_eval)
  have q: "py_int (vars ?s speed) = None"
    by (simp add: set_var_def py_int_eval)
  from p q i2c_text_raises [OF p] show ?thesis
    by (simp add: out_of_def)
qed

text \<open>
  Claim C7 (as amended). With \<open>5\<close> as the address and no other parameter invalid, the
  run gives exactly one error and hands nothing to the file manager. The message is
  the one the source writes (\<open>i2c_range_error\<close>): after the \<open>I\<close> stands the superscript
  two (U+00B2), not the digit.
\<close>

theorem i2c_address_5_one_error:
  assumes "vars s i2c_address = ''5''"
    and "{d. invalid s d} = {I2C_ADDRESS}"
  shows "generate_config fm s
           = Inr (ValidationFailed
                   [''I'' @ [CHR 0xC2, CHR 0xB2] @ ''C address must be between 0x8 and 0x77'']
                   (''I'' @ [CHR 0xC2, CHR 0xB2] @ ''C address must be between 0x8 and 0x77''))
         \<and> write_request
              (ValidationFailed
                   [''I'' @ [CHR 0xC2, CHR 0xB2] @ ''C address must be between 0x8 and 0x77'']
                   (''I'' @ [CHR 0xC2, CHR 0xB2] @ ''C address must be between 0x8 and 0x77''))
             = None"
proof -
  have p: "py_int (vars s i2c_address) = Some 5"
    using assms(1) by (simp add: py_int_eval)
  then have "py_int (vars s i2c_address) \<noteq> None" by simp
  from run_blocks_total [OF this] obtain r where r: "run_blocks s schema ([], []) = Inr r"
    by blast
  have b: "block s I2C_ADDRESS = Inr ([i2c_range_error], [])"
    using p by simp
  from run_blocks_has_error [OF r schema_complete b] have mem: "i2c_range_error \<in> set (fst r)"
    by simp
  from run_blocks_error_count [OF r] only_invalid_filter [OF assms(2)]
  have "length (fst r) = 1" by simp
  with mem have "fst r = [i2c_range_error]"
    by (cases "fst r") auto
  with r show ?thesis
    by (simp add: generate_config_def finish_def i2c_range_error_def sup2_def)
qed

theorem i2c_address_5_one_error_witness:
  "vars (set_var i2c_address ''5'' (choose_stepper ''AF_A4988'' example_screen)) i2c_address = ''5''
   \<and> {d. invalid (set_var i2c_address ''5'' (choose_stepper ''AF_A4988'' example_screen)) d}
       = {I2C_ADDRESS}
   \<and> generate_config fm_ok (set_var i2c_address ''5'' (choose_stepper ''AF_A4988'' example_screen))
       = Inr (ValidationFailed
               [''I'' @ [CHR 0xC2, CHR 0xB2] @ ''C address must be between 0x8 and 0x77'']
               (''I'' @ [CHR 0xC2, CHR 0xB2] @ ''C address must be between 0x8 and 0x77''))"
proof -
  let ?s = "set_var i2c_address ''5'' (choose_stepper ''AF_A4988'' example_screen)"
  have h1: "vars ?s i2c_address = ''5''"
    by (simp add: set_var_def)
  have h2: "{d. invalid ?s d} = {I2C_ADDRESS}"
    using example_invalid by auto
  from i2c_address_5_one_error [OF h1 h2, of fm_ok] h1 h2 show ?thesis
    by blast
qed

text \<open>
  The claim as stated names the message with the digit \<open>2\<close>; the one message of the run
  differs from that text.
\<close>

theorem i2c_address_5_message:
  "generate_config fm_ok (set_var i2c_address ''5'' (choose_stepper ''AF_A4988'' example_screen))
     = Inr (ValidationFailed [i2c_range_error] i2c_range_error)
   \<and> i2c_range_error \<noteq> ''I2C address must be between 0x8 and 0x77''"
proof -
  let ?s = "set_var i2c_address ''5'' (choose_stepper ''AF_A4988'' example_screen)"
  have p: "py_int (vars ?s i2c_address) = Some 5"
    by (simp add: set_var_def py_int_eval)
  then have "py_int (vars ?s i2c_address) \<noteq> None" by simp
  from run_blocks_total [OF this] obtain r where r: "run_blocks ?s schema ([], []) = Inr r"
    by blast
  have b: "block ?s I2C_ADDRESS = Inr ([i2c_range_error], [])"
    using p by simp
  from run_blocks_has_error [OF r schema_complete b] have mem: "i2c_range_error \<in> set (fst r)"
    by simp
  have "{d. invalid ?s d} = {I2C_ADDRESS}"
    using example_invalid by auto
  from run_blocks_error_count [OF r] only_invalid_filter [OF this]
  have "length (fst r) = 1" by simp
  with mem have "fst r = [i2c_range_error]"
    by (cases "fst r") auto
  with r have "generate_config fm_ok ?s = Inr (ValidationFailed [i2c_range_error] i2c_range_error)"
    by (simp add: generate_config_def finish_def)
  moreover have "i2c_range_error \<noteq> ''I2C address must be between 0x8 and 0x77''"
    by (simp add: i2c_range_error_def sup2_def)
  ultimately show ?thesis by simp
qed

subsection \<open>The mode and the forward-only switch\<close>

text \<open>
  Claim C6. In traverser mode, with the forward-only switch enabled and on (and an
  address text that is a number), the run fails validation: the message about forward
  only rotation is in the error list, the block of \<^verbatim>\<open>ROTATE_FORWARD_ONLY\<close> appends no
  directive, and nothing is written.
\<close>

theorem traverser_forward_only_rejected:
  assumes "sw_get s mode_switch = ''TRAVERSER''"
    and "sw_get s forward_only_switch = ''on''"
    and "cget_state s forward_only_switch = Normal"
    and "py_int (vars s i2c_address) \<noteq> None"
  shows "\<exists>errs. generate_config fm s = Inr (ValidationFailed errs (join '', '' errs))
           \<and> ''Traverser mode is incompatible with forward only rotation'' \<in> set errs
           \<and> write_request (ValidationFailed errs (join '', '' errs)) = None
           \<and> block s ROTATE_FORWARD_ONLY
               = Inr ([''Traverser mode is incompatible with forward only rotation''], [])"
proof -
  let ?e = "''Traverser mode is incompatible with forward only rotation''"
  from run_blocks_total [OF assms(4)] obtain r where r: "run_blocks s schema ([], []) = Inr r"
    by blast
  have b: "block s ROTATE_FORWARD_ONLY = Inr ([?e], [])"
    using assms(1-3) by (simp add: forward_only_error_def)
  from run_blocks_has_error [OF r schema_complete b] have mem: "?e \<in> set (fst r)"
    by simp
  then have "length (fst r) > 0" by (cases "fst r") auto
  with r have "generate_config fm s = Inr (ValidationFailed (fst r) (join '', '' (fst r)))"
    by (simp add: generate_config_def finish_def)
  with mem b show ?thesis by auto
qed

text \<open>
  Such a screen is reached: the mode switch is set to traverser, a version from 0.7.0
  enables the switch again, and the user turns it on.
\<close>

theorem traverser_forward_only_rejected_witness:
  "\<exists>s. then_do (set_product_version [''AF_A4988''] (toggle mode_switch example_screen)
                  (Some ''v0.7.0-Prod'') (Some 0) (Some 7) (Some 0))
           (\<lambda>s1. Inr (toggle forward_only_switch s1)) = Inr s
       \<and> sw_get s mode_switch = ''TRAVERSER''
       \<and> sw_get s forward_only_switch = ''on''
       \<and> cget_state s forward_only_switch = Normal
       \<and> py_int (vars s i2c_address) \<noteq> None
       \<and> (\<exists>errs. generate_config fm_ok s = Inr (ValidationFailed errs (join '', '' errs))
             \<and> ''Traverser mode is incompatible with forward only rotation'' \<in> set errs)"
proof -
  let ?spv = "set_product_version [''AF_A4988''] (toggle mode_switch example_screen)
                  (Some ''v0.7.0-Prod'') (Some 0) (Some 7) (Some 0)"
  obtain s1 where s1: "?spv = Inr s1"
    by (simp add: set_product_version_def pre_minor_def Let_def)
  let ?s = "toggle forward_only_switch s1"
  have a: "then_do ?spv (\<lambda>s1. Inr (toggle forward_only_switch s1)) = Inr ?s"
    using s1 by (simp add: then_do_def)
  have h1: "sw_get ?s mode_switch = ''TRAVERSER''"
    using s1 by (auto simp: widget_eval)
  have h2: "sw_get ?s forward_only_switch = ''on''"
    using s1 by (auto simp: widget_eval)
  have h3: "cget_state ?s forward_only_switch = Normal"
    using s1 by (auto simp: widget_eval)
  have h4: "py_int (vars ?s i2c_address) \<noteq> None"
    using s1 by (auto simp: widget_eval py_int_eval)
  from traverser_forward_only_rejected [OF h1 h2 h3 h4, of fm_ok] a h1 h2 h3 h4
  show ?thesis by blast
qed

subsection \<open>Parameters behind the version gate\<close>

lemma version_gate_closed:
  assumes "set_product_version defs s v (Some 0) (Some m) p = Inr s'" "m < 7"
  shows "\<not> editable s' INVERT_DIRECTION \<and> \<not> editable s' INVERT_STEP \<and> \<not> editable s' INVERT_ENABLE
         \<and> \<not> editable s' ROTATE_FORWARD_ONLY \<and> \<not> editable s' ROTATE_REVERSE_ONLY"
  using assms
  by (auto simp: set_product_version_def pre_minor_def get_steppers_def set_var_def Let_def
      upd_switch_def configure_state_def cget_state_def split: if_splits)

lemma v061_blocks:
  assumes "stepper \<noteq> ''Select stepper driver''"
  shows "then_do (set_product_version defs (setup_config_frame ver pname dir)
            (Some ''v0.6.1-Prod'') (Some 0) (Some 6) (Some 1))
          (\<lambda>s1. run_blocks (choose_stepper stepper (toggle relay_switch s1)) schema ([], []))
         = Inr ([], v061_lines stepper)"
  using assms
  by (simp add: widget_eval emit_eval py_int_eval v061_lines_def)

lemma v061_no_gated_directive:
  "filter (\<lambda>l. directive_line ''INVERT_'' l \<or> directive_line ''ROTATE_'' l) (v061_lines stepper) = []"
  by (simp add: v061_lines_def directive_line_def)

text \<open>
  Claim C1 (as amended). A parameter whose widget the version gate has disabled gets no
  entry in the error list and no directive at all, active or commented out: its block
  appends nothing, so the run is the run of the schema without that parameter.
\<close>

theorem gated_off_block_is_skipped:
  assumes "\<not> editable s d"
  shows "block s d = Inr ([], [])
         \<and> run_blocks s (removeAll d schema) ([], []) = run_blocks s schema ([], [])"
  using assms block_gated_off run_blocks_skip by blast

theorem gated_off_block_is_skipped_witness:
  "\<exists>s. set_product_version [] example_screen (Some ''v0.6.1-Prod'') (Some 0) (Some 6) (Some 1)
          = Inr s
       \<and> \<not> editable s INVERT_DIRECTION
       \<and> block s INVERT_DIRECTION = Inr ([], [])
       \<and> run_blocks s (removeAll INVERT_DIRECTION schema) ([], []) = run_blocks s schema ([], [])"
proof -
  obtain s where s: "set_product_version [] example_screen (Some ''v0.6.1-Prod'')
                       (Some 0) (Some 6) (Some 1) = Inr s"
    by (simp add: set_product_version_def pre_minor_def Let_def)
  from version_gate_closed [OF s] have h: "\<not> editable s INVERT_DIRECTION" by simp
  from gated_off_block_is_skipped [OF h] s h show ?thesis by blast
qed

text \<open>
  The claim as stated has the fixed or commented-out directive of a disabled parameter
  in the output. For version 0.6.1 the switch of \<^verbatim>\<open>INVERT_DIRECTION\<close> is disabled, the
  file is written, and no line of it is a directive \<^verbatim>\<open>INVERT_*\<close> or \<^verbatim>\<open>ROTATE_*\<close>.
\<close>

theorem gated_off_default_not_emitted:
  "then_do (set_product_version [''AF_A4988''] example_screen
              (Some ''v0.6.1-Prod'') (Some 0) (Some 6) (Some 1))
     (\<lambda>s1. Inr (editable (choose_stepper ''AF_A4988'' (toggle relay_switch s1)) INVERT_DIRECTION))
   = Inr False
   \<and> then_do (set_product_version [''AF_A4988''] example_screen
              (Some ''v0.6.1-Prod'') (Some 0) (Some 6) (Some 1))
       (\<lambda>s1. generate_config fm_ok (choose_stepper ''AF_A4988'' (toggle relay_switch s1)))
     = Inr (ConfigWritten ''EX-Turntable/config.h''
             (example_header # v061_lines ''AF_A4988'')
             ''compile_upload'' ''ex_turntable'')
   \<and> ''// #define INVERT_DIRECTION\<newline>'' \<notin> set (example_header # v061_lines ''AF_A4988'')
   \<and> ''#define INVERT_DIRECTION\<newline>'' \<notin> set (example_header # v061_lines ''AF_A4988'')
   \<and> filter (\<lambda>l. directive_line ''INVERT_'' l \<or> directive_line ''ROTATE_'' l)
        (example_header # v061_lines ''AF_A4988'') = []"
proof -
  let ?spv = "set_product_version [''AF_A4988''] example_screen
                (Some ''v0.6.1-Prod'') (Some 0) (Some 6) (Some 1)"
  obtain s1 where s1: "?spv = Inr s1"
    by (simp add: set_product_version_def pre_minor_def Let_def)
  let ?s = "choose_stepper ''AF_A4988'' (toggle relay_switch s1)"
  have ne: "''AF_A4988'' \<noteq> ''Select stepper driver''" by simp
  from v061_blocks [OF ne, of "[''AF_A4988'']" "''0.0.8''" "''EX-Turntable''" "''EX-Turntable''"] s1
  have run: "run_blocks ?s schema ([], []) = Inr ([], v061_lines ''AF_A4988'')"
    by (simp add: then_do_def example_screen_def)
  have ed: "editable ?s INVERT_DIRECTION = False"
    using s1 by (auto simp: widget_eval)
  have fin: "finish fm_ok ?s ([], v061_lines ''AF_A4988'')
        = ConfigWritten ''EX-Turntable/config.h''
             (example_header # v061_lines ''AF_A4988'')
             ''compile_upload'' ''ex_turntable''"
    using s1 by (auto simp: widget_eval finish_def header_def fmt_def fm_ok_def nl_def
        example_header_def)
  have a: "then_do ?spv (\<lambda>s1. Inr (editable (choose_stepper ''AF_A4988'' (toggle relay_switch s1))
             INVERT_DIRECTION)) = Inr False"
    using s1 ed by (simp add: then_do_def)
  have b: "then_do ?spv (\<lambda>s1. generate_config fm_ok (choose_stepper ''AF_A4988'' (toggle relay_switch s1)))
     = Inr (ConfigWritten ''EX-Turntable/config.h''
             (example_header # v061_lines ''AF_A4988'')
             ''compile_upload'' ''ex_turntable'')"
    using s1 run fin by (simp add: then_do_def generate_config_def)
  have c: "''// #define INVERT_DIRECTION\<newline>'' \<notin> set (example_header # v061_lines ''AF_A4988'')"
    "''#define INVERT_DIRECTION\<newline>'' \<notin> set (example_header # v061_lines ''AF_A4988'')"
    by (simp_all add: v061_lines_def example_header_def)
  have d: "filter (\<lambda>l. directive_line ''INVERT_'' l \<or> directive_line ''ROTATE_'' l)
        (example_header # v061_lines ''AF_A4988'') = []"
    using v061_no_gated_directive [of "''AF_A4988''"]
    by (simp add: example_header_def directive_line_def)
  from a b c d show ?thesis by blast
qed

text \<open>
  On the screen's first values with the relay set active low and a stepper chosen, under
  version \<open>v0.6.1-Prod\<close>, the run has no errors and hands the file manager a text that
  has the lines \<^verbatim>\<open>#define I2C_ADDRESS 0x60\<close>, \<^verbatim>\<open>#define TURNTABLE_EX_MODE TURNTABLE\<close>
  and \<^verbatim>\<open>#define STEPPER_GEARING_FACTOR 1\<close> and no directive \<^verbatim>\<open>INVERT_*\<close> or
  \<^verbatim>\<open>ROTATE_*\<close>. The version numbers are those \<^verbatim>\<open>switch_view\<close> passes on for the tag.
\<close>

theorem scenario_v061:
  assumes "stepper \<noteq> ''Select stepper driver''"
  shows "\<exists>out contents.
           then_do (set_product_version defs (setup_config_frame ver pname dir)
                      (Some ''v0.6.1-Prod'') (Some 0) (Some 6) (Some 1))
             (\<lambda>s1. generate_config fm (choose_stepper stepper (toggle relay_switch s1)))
           = Inr out
         \<and> param_errors out = []
         \<and> write_request out = Some (get_filepath fm dir ''config.h'', contents)
         \<and> ''#define I2C_ADDRESS 0x60\<newline>'' \<in> set contents
         \<and> ''#define TURNTABLE_EX_MODE TURNTABLE\<newline>'' \<in> set contents
         \<and> ''#define STEPPER_GEARING_FACTOR 1\<newline>'' \<in> set contents
         \<and> filter (\<lambda>l. directive_line ''INVERT_'' l \<or> directive_line ''ROTATE_'' l) contents = []"
proof -
  let ?spv = "set_product_version defs (setup_config_frame ver pname dir)
                (Some ''v0.6.1-Prod'') (Some 0) (Some 6) (Some 1)"
  obtain s1 where s1: "?spv = Inr s1"
    by (simp add: set_product_version_def pre_minor_def Let_def)
  let ?s = "choose_stepper stepper (toggle relay_switch s1)"
  from v061_blocks [OF assms, of defs ver pname dir] s1
  have run: "run_blocks ?s schema ([], []) = Inr ([], v061_lines stepper)"
    by (simp add: then_do_def)
  let ?out = "finish fm ?s ([], v061_lines stepper)"
  let ?contents = "header ?s # v061_lines stepper"
  have dir: "ex_turntable_dir ?s = dir"
    using s1 by (auto simp: widget_eval)
  have g: "then_do ?spv (\<lambda>s1. generate_config fm (choose_stepper stepper (toggle relay_switch s1)))
           = Inr ?out"
    using s1 run by (simp add: then_do_def generate_config_def)
  have e: "param_errors ?out = []"
    by (simp add: finish_errors)
  have w: "write_request ?out = Some (get_filepath fm dir ''config.h'', ?contents)"
    using dir by (simp add: finish_def Let_def)
  have h: "\<not> directive_line ''INVERT_'' (header ?s)" "\<not> directive_line ''ROTATE_'' (header ?s)"
    by (simp_all add: header_def directive_line_def)
  have f: "filter (\<lambda>l. directive_line ''INVERT_'' l \<or> directive_line ''ROTATE_'' l) ?contents = []"
    using h v061_no_gated_directive [of stepper] by simp
  have m: "''#define I2C_ADDRESS 0x60\<newline>'' \<in> set ?contents"
    "''#define TURNTABLE_EX_MODE TURNTABLE\<newline>'' \<in> set ?contents"
    "''#define STEPPER_GEARING_FACTOR 1\<newline>'' \<in> set ?contents"
    by (simp_all add: v061_lines_def)
  from g e w m f show ?thesis by blast
qed

theorem scenario_v061_witness:
  "''AF_A4988'' \<noteq> ''Select stepper driver''
   \<and> (\<exists>out contents.
           then_do (set_product_version [''AF_A4988''] example_screen
                      (Some ''v0.6.1-Prod'') (Some 0) (Some 6) (Some 1))
             (\<lambda>s1. generate_config fm_ok (choose_stepper ''AF_A4988'' (toggle relay_switch s1)))
           = Inr out
         \<and> param_errors out = []
         \<and> write_request out = Some (get_filepath fm_ok ''EX-Turntable'' ''config.h'', contents)
         \<and> ''#define I2C_ADDRESS 0x60\<newline>'' \<in> set contents
         \<and> ''#define TURNTABLE_EX_MODE TURNTABLE\<newline>'' \<in> set contents
         \<and> ''#define STEPPER_GEARING_FACTOR 1\<newline>'' \<in> set contents
         \<and> filter (\<lambda>l. directive_line ''INVERT_'' l \<or> directive_line ''ROTATE_'' l) contents = [])"
proof -
  have h: "''AF_A4988'' \<noteq> ''Select stepper driver''" by simp
  from scenario_v061 [OF h, of "[''AF_A4988'']" "''0.0.8''" "''EX-Turntable''" "''EX-Turntable''" fm_ok]
  show ?thesis unfolding example_screen_def using h by blast
qed


section \<open>Properties of the view switcher\<close>

lemmas hook_eval = and_then_def set_product_def call_set_product_version_def
  construct_def destroy_def grid_def tkraise_def upd_obj_def

lemmas sample_eval = sample_env_def sample_views_def new_installer_def no_class_def product_class_def

lemma switch_view_launch:
  assumes "view_class \<noteq> []" "frames s view_class = None" "views env view_class = Some c"
  shows "switch_view env view_class product version s
         = launch c view_class product version
             (if truthy version then map_option (extract_version_details env) version else None) s"
  using assms by (simp add: switch_view_def Let_def)

lemma switch_view_change_product:
  assumes "view_class \<noteq> []" "frames s view_class = Some a" "views env view_class = Some c"
    "recreated view_class product (calling_product s)"
  shows "switch_view env view_class product version s
         = change_product c view_class product version
             (if truthy version then map_option (extract_version_details env) version else None)
             (destroy a (s\<lparr>view := Some a\<rparr>))"
  using assms by (simp add: switch_view_def Let_def)

lemma switch_view_raise_view:
  assumes "view_class \<noteq> []" "frames s view_class = Some a"
    "\<not> recreated view_class product (calling_product s)"
  shows "switch_view env view_class product version s
         = raise_view a view_class product version
             (if truthy version then map_option (extract_version_details env) version else None)
             (s\<lparr>view := Some a\<rparr>)"
  using assms by (simp add: switch_view_def Let_def)

lemma switch_view_unknown:
  assumes "view_class \<noteq> []" "frames s view_class = None" "views env view_class = None"
  shows "switch_view env view_class product version s = Raised (KeyError view_class) s"
  using assms by (simp add: switch_view_def Let_def)

lemma launch_frames:
  "frames (state_of (launch c view_class product version vd s)) = (frames s)(view_class \<mapsto> fresh s)"
  by (simp add: launch_def hook_eval Let_def split: option.splits)

lemma change_product_frames:
  "frames (state_of (change_product c view_class product version vd s))
     = (frames s)(view_class \<mapsto> fresh s)"
  by (simp add: change_product_def hook_eval Let_def split: option.splits)

lemma raise_view_frames:
  "frames (state_of (raise_view a view_class product version vd s)) = frames s"
  by (simp add: raise_view_def hook_eval split: option.splits)

lemma launch_unbound:
  assumes "has_set_product_version c" "product_view view_class \<longrightarrow> has_set_product c"
  shows "launch c view_class product None None s
         = Raised UnboundLocalError
             ((if product_view view_class
               then upd_obj (fresh s) (\<lambda>ob. ob\<lparr>attr_product := Some product\<rparr>) else id)
              ((snd (construct c s))\<lparr>view := Some (fresh s),
                 frames := (frames s)(view_class \<mapsto> fresh s)\<rparr>))"
  using assms by (simp add: launch_def hook_eval Let_def)

lemma recreated_product_view:
  "recreated view_class product calling \<Longrightarrow> product_view view_class"
  by (auto simp: recreated_def product_view_def)

lemma change_product_unbound:
  assumes "has_set_product_version c" "has_set_product c"
  shows "change_product c view_class product None None s
         = Raised UnboundLocalError
             (upd_obj (fresh s) (\<lambda>ob. ob\<lparr>attr_product := Some product\<rparr>)
              ((snd (construct c s))\<lparr>view := Some (fresh s),
                 frames := (frames s)(view_class \<mapsto> fresh s)\<rparr>))"
  using assms by (simp add: change_product_def hook_eval Let_def)

lemmas session_eval = back_at_commandstation_def visited_compile_upload_def
  visited_commandstation_def switch_view_def launch_def raise_view_def change_product_def
  hook_eval sample_eval recreated_def truthy_def calling_product_def product_view_def Let_def

lemma switch_view_keeps_registry:
  assumes "dom (frames s) \<subseteq> dom (views env)"
  shows "dom (frames (state_of (switch_view env view_class product version s))) \<subseteq> dom (views env)"
proof (cases "view_class = []")
  case True
  with assms show ?thesis by (simp add: switch_view_def)
next
  case ne: False
  show ?thesis
  proof (cases "views env view_class")
    case None
    with assms have "frames s view_class = None" by (auto simp: dom_def)
    from switch_view_unknown [OF ne this None] assms show ?thesis by simp
  next
    case (Some c)
    show ?thesis
    proof (cases "frames s view_class")
      case None
      from switch_view_launch [OF ne None Some] assms Some show ?thesis
        by (auto simp: launch_frames)
    next
      case a: (Some a)
      show ?thesis
      proof (cases "recreated view_class product (calling_product s)")
        case True
        from switch_view_change_product [OF ne a Some True] assms Some show ?thesis
          by (auto simp: change_product_frames destroy_def upd_obj_def)
      next
        case False
        from switch_view_raise_view [OF ne a False] assms show ?thesis
          by (auto simp: raise_view_frames)
      qed
    qed
  qed
qed

lemma raise_view_keeps:
  "view (state_of (raise_view a view_class product version vd s)) = view s"
  "fresh (state_of (raise_view a view_class product version vd s)) = fresh s"
  "destroyed (objs (state_of (raise_view a view_class product version vd s)) b)
     = destroyed (objs s b)"
  "klass (objs (state_of (raise_view a view_class product version vd s)) b) = klass (objs s b)"
  "b \<noteq> a \<Longrightarrow> objs (state_of (raise_view a view_class product version vd s)) b = objs s b"
  by (simp_all add: raise_view_def hook_eval split: option.splits)

lemma raise_view_returned:
  assumes "raise_view a view_class product version vd s = Returned s'"
  shows "front s' = Some a"
    and "view_class = ''select_version_config'' \<Longrightarrow> attr_product (objs s' a) = Some product"
    and "view s' = Some a \<Longrightarrow> raise_view a view_class product version vd s' = Returned s'"
  using assms
  by (auto simp: raise_view_def hook_eval split: option.splits if_splits)

text \<open>
  Claim C8 (as amended). A request for a view that is not empty and not in the registry
  raises \<^verbatim>\<open>KeyError\<close> before anything is changed; the exception is not caught on the way,
  so the window's handler for uncaught exceptions shows its box.
\<close>

theorem unknown_view_raises:
  assumes "view_class \<noteq> []"
    and "views env view_class = None"
    and "dom (frames s) \<subseteq> dom (views env)"
  shows "switch_view env view_class product version s = Raised (KeyError view_class) s
         \<and> report_callback (switch_view env view_class product version s)
             = (exception_handler (KeyError view_class), s)"
proof -
  from assms(2,3) have "frames s view_class = None"
    by (auto simp: dom_def)
  from switch_view_unknown [OF assms(1) this assms(2)] show ?thesis
    by (simp add: report_callback_def)
qed

theorem unknown_view_raises_witness:
  "''advanced_config'' \<noteq> []
   \<and> views sample_env ''advanced_config'' = None
   \<and> dom (frames new_installer) \<subseteq> dom (views sample_env)
   \<and> switch_view sample_env ''advanced_config'' (Some ''ex_turntable'') None new_installer
       = Raised (KeyError ''advanced_config'') new_installer"
proof -
  have h1: "''advanced_config'' \<noteq> []" by simp
  have h2: "views sample_env ''advanced_config'' = None"
    by (simp add: sample_eval)
  have h3: "dom (frames new_installer) \<subseteq> dom (views sample_env)"
    by (simp add: new_installer_def)
  from unknown_view_raises [OF h1 h2 h3, of "Some ''ex_turntable''" None] h1 h2 h3
  show ?thesis by blast
qed

text \<open>
  The claim as stated covers every id that is not in the registry. The empty id is not
  in it, and \<^verbatim>\<open>if view_class:\<close> makes that request return with nothing done.
\<close>

theorem empty_view_ignored:
  "views sample_env [] = None
   \<and> switch_view sample_env [] None None new_installer = Returned new_installer
   \<and> raised (switch_view sample_env [] None None new_installer) = None"
  by (simp add: sample_eval switch_view_def)

text \<open>
  Claim C9. When \<^verbatim>\<open>switch_view\<close> makes a new instance (the view is not cached, or it
  is recreated) of a class that has \<^verbatim>\<open>set_product_version\<close>, and no version is given,
  the call raises \<^verbatim>\<open>UnboundLocalError\<close>: the new instance is \<^verbatim>\<open>self.view\<close> and is in
  \<^verbatim>\<open>frames\<close>, but it is never put on the grid.
\<close>

theorem new_view_without_version_raises:
  assumes "view_class \<noteq> []"
    and "views env view_class = Some c"
    and "has_set_product_version c"
    and "product_view view_class \<longrightarrow> has_set_product c"
    and "frames s view_class = None \<or> recreated view_class product (calling_product s)"
  shows "raised (switch_view env view_class product None s) = Some UnboundLocalError
         \<and> view (state_of (switch_view env view_class product None s)) = Some (fresh s)
         \<and> frames (state_of (switch_view env view_class product None s)) view_class
             = Some (fresh s)
         \<and> (front (state_of (switch_view env view_class product None s)) = front s
            \<or> front (state_of (switch_view env view_class product None s)) = None)"
proof (cases "frames s view_class")
  case None
  from switch_view_launch [OF assms(1) None assms(2), of product None]
  have "switch_view env view_class product None s = launch c view_class product None None s"
    by (simp add: truthy_def)
  with launch_unbound [OF assms(3,4)] show ?thesis
    by (simp add: construct_def upd_obj_def)
next
  case (Some a)
  with assms(5) have r: "recreated view_class product (calling_product s)" by simp
  with assms(4) have sp: "has_set_product c"
    using recreated_product_view by blast
  from switch_view_change_product [OF assms(1) Some assms(2) r, of None]
  have "switch_view env view_class product None s
          = change_product c view_class product None None (destroy a (s\<lparr>view := Some a\<rparr>))"
    by (simp add: truthy_def)
  with change_product_unbound [OF assms(3) sp] show ?thesis
    by (simp add: construct_def upd_obj_def destroy_def)
qed

theorem new_view_without_version_raises_witness:
  "''ex_commandstation'' \<noteq> []
   \<and> views sample_env ''ex_commandstation''
       = Some \<lparr>init_product = Some (Some ''ex_commandstation''), has_set_product = False,
               has_set_product_version = True\<rparr>
   \<and> \<not> product_view ''ex_commandstation''
   \<and> frames new_installer ''ex_commandstation'' = None
   \<and> raised (switch_view sample_env ''ex_commandstation'' None None new_installer)
       = Some UnboundLocalError
   \<and> view (state_of (switch_view sample_env ''ex_commandstation'' None None new_installer))
       = Some 0
   \<and> front (state_of (switch_view sample_env ''ex_commandstation'' None None new_installer))
       = None"
proof -
  let ?c = "\<lparr>init_product = Some (Some ''ex_commandstation''), has_set_product = False,
               has_set_product_version = True\<rparr>"
  have h1: "''ex_commandstation'' \<noteq> []" by simp
  have h2: "views sample_env ''ex_commandstation'' = Some ?c"
    by (simp add: sample_eval)
  have h3: "has_set_product_version ?c" by simp
  have np: "\<not> product_view ''ex_commandstation''"
    by (simp add: product_view_def)
  then have h4: "product_view ''ex_commandstation'' \<longrightarrow> has_set_product ?c" by simp
  have f: "frames new_installer ''ex_commandstation'' = None"
    by (simp add: new_installer_def)
  then have h5: "frames new_installer ''ex_commandstation'' = None
      \<or> recreated ''ex_commandstation'' None (calling_product new_installer)" by simp
  have z: "fresh new_installer = 0" "front new_installer = None"
    by (simp_all add: new_installer_def)
  from new_view_without_version_raises [OF h1 h2 h3 h4 h5] h1 h2 np f z show ?thesis
    by auto
qed

text \<open>
  Claim C3 (as amended). A request for a cached view other than \<^verbatim>\<open>compile_upload\<close>,
  which is not \<^verbatim>\<open>select_version_config\<close> or asks for the product of the view that was
  active, reuses the cached instance: \<^verbatim>\<open>frames\<close> is unchanged, nothing is constructed or
  destroyed, and when the call returns the instance is in front and the same request
  again changes nothing.
\<close>

theorem cached_view_reused:
  assumes "view_class \<noteq> []"
    and "frames s view_class = Some a"
    and "view_class \<noteq> ''compile_upload''"
    and "view_class \<noteq> ''select_version_config'' \<or> product = calling_product s"
  shows "(let r = switch_view env view_class product version s in
          frames (state_of r) = frames s
          \<and> view (state_of r) = Some a
          \<and> fresh (state_of r) = fresh s
          \<and> destroyed (objs (state_of r) a) = destroyed (objs s a)
          \<and> (\<forall>s'. r = Returned s' \<longrightarrow>
                front s' = Some a
                \<and> switch_view env view_class product version s' = Returned s'))"
proof -
  let ?vd = "if truthy version then map_option (extract_version_details env) version else None"
  let ?r = "switch_view env view_class product version s"
  from assms(3,4) have nr: "\<not> recreated view_class product (calling_product s)"
    by (auto simp: recreated_def)
  from switch_view_raise_view [OF assms(1,2) nr]
  have r: "?r = raise_view a view_class product version ?vd (s\<lparr>view := Some a\<rparr>)" .
  have keep: "frames (state_of ?r) = frames s" "view (state_of ?r) = Some a"
    "fresh (state_of ?r) = fresh s" "destroyed (objs (state_of ?r) a) = destroyed (objs s a)"
    unfolding r by (simp_all add: raise_view_frames raise_view_keeps)
  have again: "front s' = Some a \<and> switch_view env view_class product version s' = Returned s'"
    if ret: "?r = Returned s'" for s'
  proof -
    from ret r have rv: "raise_view a view_class product version ?vd (s\<lparr>view := Some a\<rparr>)
                          = Returned s'" by simp
    from keep ret have f: "frames s' view_class = Some a" and v: "view s' = Some a"
      using assms(2) by simp_all
    have nr': "\<not> recreated view_class product (calling_product s')"
    proof (cases "view_class = ''select_version_config''")
      case True
      from raise_view_returned(2) [OF rv True] v have "calling_product s' = product"
        by (simp add: calling_product_def)
      with assms(3) show ?thesis by (simp add: recreated_def)
    next
      case False
      with assms(3) show ?thesis by (simp add: recreated_def)
    qed
    from v have same: "s'\<lparr>view := Some a\<rparr> = s'" by (cases s') simp
    from switch_view_raise_view [OF assms(1) f nr', of env version]
    have "switch_view env view_class product version s'
            = raise_view a view_class product version ?vd s'"
      by (simp add: same)
    with raise_view_returned(3) [OF rv v] raise_view_returned(1) [OF rv] show ?thesis
      by simp
  qed
  from keep again show ?thesis by (simp add: Let_def)
qed

theorem cached_view_reused_witness:
  "''ex_commandstation'' \<noteq> []
   \<and> frames visited_compile_upload ''ex_commandstation'' = Some 0
   \<and> ''ex_commandstation'' \<noteq> ''compile_upload''
   \<and> ''ex_commandstation'' \<noteq> ''select_version_config''
   \<and> (let r = switch_view sample_env ''ex_commandstation'' None None visited_compile_upload in
          frames (state_of r) = frames visited_compile_upload
          \<and> view (state_of r) = Some 0
          \<and> fresh (state_of r) = fresh visited_compile_upload
          \<and> destroyed (objs (state_of r) 0) = destroyed (objs visited_compile_upload 0)
          \<and> r = Returned back_at_commandstation
          \<and> front back_at_commandstation = Some 0
          \<and> switch_view sample_env ''ex_commandstation'' None None back_at_commandstation
              = Returned back_at_commandstation)"
proof -
  have h1: "''ex_commandstation'' \<noteq> []" by simp
  have h2: "frames visited_compile_upload ''ex_commandstation'' = Some 0"
    by (simp add: session_eval)
  have h3: "''ex_commandstation'' \<noteq> ''compile_upload''" by simp
  have h4: "''ex_commandstation'' \<noteq> ''select_version_config''" by simp
  then have h4': "''ex_commandstation'' \<noteq> ''select_version_config''
      \<or> None = calling_product visited_compile_upload" by simp
  have ret: "switch_view sample_env ''ex_commandstation'' None None visited_compile_upload
               = Returned back_at_commandstation"
    by (simp add: session_eval)
  from cached_view_reused [OF h1 h2 h3 h4', of sample_env None] ret h1 h2 h3 h4
  show ?thesis by (simp add: Let_def)
qed

text \<open>
  The claim as stated has every cached view reused when the product is the one of the
  view that was active. \<^verbatim>\<open>compile_upload\<close> is recreated all the same: back on the
  EX-CommandStation screen, the request for the compile screen with that screen's product
  destroys the cached instance and puts a new one in \<^verbatim>\<open>frames\<close>.
\<close>

theorem compile_upload_recreated:
  "frames back_at_commandstation ''compile_upload'' = Some 1
   \<and> calling_product back_at_commandstation = Some ''ex_commandstation''
   \<and> raised (switch_view sample_env ''compile_upload'' (Some ''ex_commandstation'') None
               back_at_commandstation) = None
   \<and> frames (state_of (switch_view sample_env ''compile_upload'' (Some ''ex_commandstation'')
                          None back_at_commandstation)) ''compile_upload'' = Some 2
   \<and> destroyed (objs (state_of (switch_view sample_env ''compile_upload''
                          (Some ''ex_commandstation'') None back_at_commandstation)) 1)
   \<and> fresh (state_of (switch_view sample_env ''compile_upload'' (Some ''ex_commandstation'')
                          None back_at_commandstation)) = 3"
  by (simp add: session_eval)

end
